theory Spec2Isabelle
  imports Main
begin

text \<open>
  A model of the check evaluation engine of the status checker: the typed checks, the
  value comparator, the JSON-path extractor, the evaluator of each kind of check
  (\<open>evaluator.ts\<close>) and the orchestration of one probe (\<open>checker.ts\<close>). The built-in
  operations of JavaScript that the code relies on (string methods, \<open>parseInt\<close>,
  \<open>Number\<close>, \<open>String\<close>, \<open>JSON.stringify\<close>, property reads) are defined first, as the
  language specifies them; what only the engine determines is a parameter.
\<close>

section \<open>Strings\<close>

text \<open>
  A JavaScript string is modelled as a \<open>string\<close>: a list of characters, each standing
  for one code unit below 256 (the Latin-1 range). Code units above that range are not
  represented.
\<close>

definition char_code :: "char \<Rightarrow> nat" where
  "char_code c = of_char c"

text \<open>White space and line terminators of ECMAScript that fall into the Latin-1 range.\<close>

definition is_ws :: "char \<Rightarrow> bool" where
  "is_ws c = (char_code c = 9 \<or> char_code c = 10 \<or> char_code c = 11 \<or> char_code c = 12 \<or> char_code c = 13
              \<or> char_code c = 32 \<or> char_code c = 160)"

definition is_digit :: "char \<Rightarrow> bool" where
  "is_digit c = (48 \<le> char_code c \<and> char_code c \<le> 57)"

definition is_upper :: "char \<Rightarrow> bool" where
  "is_upper c = (65 \<le> char_code c \<and> char_code c \<le> 90)"

definition is_lower :: "char \<Rightarrow> bool" where
  "is_lower c = (97 \<le> char_code c \<and> char_code c \<le> 122)"

text \<open>The class \<open>\w\<close> of a regular expression: \<open>[A-Za-z0-9_]\<close>.\<close>

definition is_word :: "char \<Rightarrow> bool" where
  "is_word c = (is_digit c \<or> is_upper c \<or> is_lower c \<or> c = CHR ''_'')"

text \<open>\<open>String.prototype.trim\<close>.\<close>

definition trim :: "string \<Rightarrow> string" where
  "trim s = rev (dropWhile is_ws (rev (dropWhile is_ws s)))"

text \<open>\<open>String.prototype.toLowerCase\<close> on Latin-1 code units.\<close>

definition lower_char :: "char \<Rightarrow> char" where
  "lower_char c =
     (if is_upper c \<or> (192 \<le> char_code c \<and> char_code c \<le> 222 \<and> char_code c \<noteq> 215)
      then char_of (char_code c + 32) else c)"

definition toLowerCase :: "string \<Rightarrow> string" where
  "toLowerCase s = map lower_char s"

text \<open>\<open>String.prototype.startsWith\<close> and \<open>String.prototype.includes\<close>.\<close>

fun startsWith :: "string \<Rightarrow> string \<Rightarrow> bool" where
  "startsWith s [] = True"
| "startsWith [] (p # ps) = False"
| "startsWith (c # cs) (p # ps) = (c = p \<and> startsWith cs ps)"

fun str_includes :: "string \<Rightarrow> string \<Rightarrow> bool" where
  "str_includes [] sub = (sub = [])"
| "str_includes (c # cs) sub = (startsWith (c # cs) sub \<or> str_includes cs sub)"

text \<open>\<open>String.prototype.split\<close> with a one-character separator: never an empty result.\<close>

fun split_on :: "char \<Rightarrow> string \<Rightarrow> string list" where
  "split_on d [] = [[]]"
| "split_on d (c # cs) =
     (if c = d then [] # split_on d cs
      else (case split_on d cs of [] \<Rightarrow> [[c]] | w # ws \<Rightarrow> (c # w) # ws))"

text \<open>\<open>Array.prototype.join\<close> on strings.\<close>

fun join :: "string \<Rightarrow> string list \<Rightarrow> string" where
  "join sep [] = []"
| "join sep [x] = x"
| "join sep (x # y # ys) = x @ sep @ join sep (y # ys)"

text \<open>The operand of \<open>value || ''\<close> for an optional string.\<close>

definition or_empty :: "string option \<Rightarrow> string" where
  "or_empty v = (case v of None \<Rightarrow> [] | Some s \<Rightarrow> s)"

section \<open>Numbers\<close>

text \<open>
  A JavaScript number is one of NaN, the two infinities, or a finite value. A finite value
  is kept as an exact decimal \<open>Fin m e\<close>, standing for \<open>m * 10 ^ e\<close>: every number the
  program meets comes from a decimal literal (a JSON body, an expected value, a status
  code, a duration in milliseconds). The rounding of IEEE doubles is not modelled, so the
  model is exact for literals of at most 15 significant digits within the double range.
\<close>

datatype jsnum = NaN | PosInf | NegInf | Fin int int

definition fin_less :: "int \<Rightarrow> int \<Rightarrow> int \<Rightarrow> int \<Rightarrow> bool" where
  "fin_less m e m' e' =
     (let d = min e e' in m * 10 ^ nat (e - d) < m' * 10 ^ nat (e' - d))"

text \<open>The relational operator \<open><\<close> on numbers: false as soon as one side is NaN.\<close>

fun num_less :: "jsnum \<Rightarrow> jsnum \<Rightarrow> bool" where
  "num_less NaN y = False"
| "num_less x NaN = False"
| "num_less PosInf y = False"
| "num_less x PosInf = True"
| "num_less x NegInf = False"
| "num_less NegInf y = True"
| "num_less (Fin m e) (Fin m' e') = fin_less m e m' e'"

definition digit_char :: "nat \<Rightarrow> char" where
  "digit_char d = ''0123456789abcdef'' ! (d mod 16)"

fun digit_chars :: "nat \<Rightarrow> string" where
  "digit_chars n =
     (if n < 10 then [digit_char n] else digit_chars (n div 10) @ [digit_char (n mod 10)])"

declare digit_chars.simps [simp del]

text \<open>
  \<open>Number::toString\<close> for a non-zero finite value given by its decimal digits \<open>ds\<close> and
  exponent \<open>e\<close>: with \<open>s\<close> the digits without trailing zeros, \<open>k\<close> their count and \<open>n\<close> the
  position of the decimal point, plain notation for \<open>-5 \<le> n \<le> 21\<close> and exponential
  notation otherwise.
\<close>

definition render_decimal :: "string \<Rightarrow> int \<Rightarrow> string" where
  "render_decimal ds e =
     (let s = rev (dropWhile (\<lambda>c. c = CHR ''0'') (rev ds));
          k = int (length s);
          n = int (length ds) + e
      in if - 5 \<le> n \<and> n \<le> 21 then
           (if k \<le> n then s @ replicate (nat (n - k)) CHR ''0''
            else if 0 < n then take (nat n) s @ ''.'' @ drop (nat n) s
            else ''0.'' @ replicate (nat (- n)) CHR ''0'' @ s)
         else
           (let ex = n - 1;
                es = (if 0 \<le> ex then ''+'' else ''-'') @ digit_chars (nat \<bar>ex\<bar>)
            in if k = 1 then s @ ''e'' @ es
               else take 1 s @ ''.'' @ drop 1 s @ ''e'' @ es))"

definition Number_toString :: "jsnum \<Rightarrow> string" where
  "Number_toString x =
     (case x of
        NaN \<Rightarrow> ''NaN''
      | PosInf \<Rightarrow> ''Infinity''
      | NegInf \<Rightarrow> ''-Infinity''
      | Fin m e \<Rightarrow>
          if m = 0 then ''0''
          else (if m < 0 then ''-'' else '''') @ render_decimal (digit_chars (nat \<bar>m\<bar>)) e)"

text \<open>The value of a digit string in a radix, most significant digit first.\<close>

definition hex_val :: "char \<Rightarrow> nat" where
  "hex_val c =
     (if is_digit c then char_code c - 48
      else if is_upper c then char_code c - 55
      else char_code c - 87)"

definition is_hex :: "char \<Rightarrow> bool" where
  "is_hex c = (is_digit c \<or> (65 \<le> char_code c \<and> char_code c \<le> 70) \<or> (97 \<le> char_code c \<and> char_code c \<le> 102))"

fun radix_value :: "nat \<Rightarrow> nat \<Rightarrow> string \<Rightarrow> nat" where
  "radix_value r acc [] = acc"
| "radix_value r acc (c # cs) = radix_value r (r * acc + hex_val c) cs"

text \<open>
  \<open>parseInt(str, 10)\<close>: leading white space is skipped, a sign is read, then the longest
  run of decimal digits; whatever follows is ignored. \<open>None\<close> stands for NaN (no digit).
  The result is the exact integer (a double would round it beyond \<open>2 ^ 53\<close>).
\<close>

definition parseInt :: "string \<Rightarrow> int option" where
  "parseInt str =
     (let s = dropWhile is_ws str;
          neg = startsWith s ''-'';
          s1 = (if startsWith s ''-'' \<or> startsWith s ''+'' then drop 1 s else s);
          z = takeWhile is_digit s1
      in if z = [] then None
         else Some ((if neg then - 1 else 1) * int (radix_value 10 0 z)))"

text \<open>
  \<open>StringToNumber\<close>, the conversion behind \<open>Number(str)\<close>: the trimmed text is empty
  (zero), a binary, octal or hexadecimal integer literal without sign, or a signed decimal
  literal (\<open>Infinity\<close>, or digits with an optional fraction and exponent); anything else
  is NaN.
\<close>

definition parse_nondecimal :: "string \<Rightarrow> jsnum option" where
  "parse_nondecimal t =
     (let ds = drop 2 t in
      if (startsWith t ''0x'' \<or> startsWith t ''0X'') \<and> ds \<noteq> [] \<and> list_all is_hex ds
        then Some (Fin (int (radix_value 16 0 ds)) 0)
      else if (startsWith t ''0o'' \<or> startsWith t ''0O'') \<and> ds \<noteq> []
              \<and> list_all (\<lambda>c. 48 \<le> char_code c \<and> char_code c \<le> 55) ds
        then Some (Fin (int (radix_value 8 0 ds)) 0)
      else if (startsWith t ''0b'' \<or> startsWith t ''0B'') \<and> ds \<noteq> []
              \<and> list_all (\<lambda>c. c = CHR ''0'' \<or> c = CHR ''1'') ds
        then Some (Fin (int (radix_value 2 0 ds)) 0)
      else None)"

text \<open>The exponent part \<open>[eE][+-]?digits\<close> that ends a decimal literal; \<open>None\<close> if malformed.\<close>

definition parse_exponent :: "string \<Rightarrow> int option" where
  "parse_exponent r =
     (if r = [] then Some 0
      else if startsWith r ''e'' \<or> startsWith r ''E'' then
        (let r1 = drop 1 r;
             neg = startsWith r1 ''-'';
             ds = (if startsWith r1 ''-'' \<or> startsWith r1 ''+'' then drop 1 r1 else r1)
         in if ds \<noteq> [] \<and> list_all is_digit ds
            then Some ((if neg then - 1 else 1) * int (radix_value 10 0 ds))
            else None)
      else None)"

definition parse_decimal :: "string \<Rightarrow> jsnum" where
  "parse_decimal t =
     (let neg = startsWith t ''-'';
          u = (if startsWith t ''-'' \<or> startsWith t ''+'' then drop 1 t else t)
      in if u = ''Infinity'' then (if neg then NegInf else PosInf)
         else
           (let ip = takeWhile is_digit u;
                r1 = dropWhile is_digit u;
                dot = startsWith r1 ''.'';
                fp = (if dot then takeWhile is_digit (drop 1 r1) else []);
                r2 = (if dot then dropWhile is_digit (drop 1 r1) else r1)
            in if ip = [] \<and> fp = [] then NaN
               else (case parse_exponent r2 of
                       None \<Rightarrow> NaN
                     | Some ex \<Rightarrow>
                         Fin ((if neg then - 1 else 1) * int (radix_value 10 0 (ip @ fp)))
                             (ex - int (length fp)))))"

definition StringToNumber :: "string \<Rightarrow> jsnum" where
  "StringToNumber str =
     (let t = trim str in
      if t = [] then Fin 0 0
      else (case parse_nondecimal t of Some n \<Rightarrow> n | None \<Rightarrow> parse_decimal t))"

section \<open>Dynamic values\<close>

text \<open>
  The values a JSON body can hold, with \<open>undefined\<close> for an absent one. An object keeps its
  own properties in enumeration order. A path can also lead out of the document, to what
  a value inherits from its prototype: \<open>JFunction\<close> is a function object of the engine and
  \<open>JHostObject\<close> another object of the engine (a prototype object), each named by a
  number that only the engine interprets.
\<close>

datatype jsval =
    JUndefined
  | JNull
  | JBool bool
  | JNum jsnum
  | JStr string
  | JArr "jsval list"
  | JObj "(string \<times> jsval) list"
  | JFunction nat
  | JHostObject nat

section \<open>The engine\<close>

text \<open>
  What the program takes from the JavaScript engine without fixing it is a parameter of
  the model. \<open>Inl\<close> always holds the message of an exception thrown.
  \<^item> \<open>RegExp_new\<close> is \<open>new RegExp(pattern)\<close>: the predicate \<open>test\<close> of the compiled
    pattern, or the error of a pattern that does not compile.
  \<^item> \<open>JSON_parse\<close> is \<open>JSON.parse\<close>.
  \<^item> \<open>Get_inherited v key\<close> is the read \<open>v[key]\<close> where \<open>key\<close> is not an own property of
    the value \<open>v\<close>: the lookup along the prototype chain of \<open>v\<close>, and every read on an
    object of the engine.
  \<^item> For a function of the engine, \<open>function_text\<close> is its rendering by \<open>String\<close>.
  \<^item> For another object of the engine, \<open>host_isArray\<close> is \<open>Array.isArray\<close>, \<open>host_items\<close>
    its elements in order when it is an array, \<open>host_String\<close> and \<open>host_Number\<close> the
    conversions \<open>String\<close> and \<open>Number\<close>, and \<open>host_stringify\<close> the result of
    \<open>JSON.stringify\<close> (\<open>None\<close> for \<open>undefined\<close>).
\<close>

record js_runtime =
  RegExp_new :: "string \<Rightarrow> string + (string \<Rightarrow> bool)"
  JSON_parse :: "string \<Rightarrow> string + jsval"
  Get_inherited :: "jsval \<Rightarrow> string \<Rightarrow> string + jsval"
  function_text :: "nat \<Rightarrow> string"
  host_isArray :: "nat \<Rightarrow> bool"
  host_items :: "nat \<Rightarrow> jsval list"
  host_String :: "nat \<Rightarrow> string + string"
  host_Number :: "nat \<Rightarrow> string + jsnum"
  host_stringify :: "nat \<Rightarrow> string option"

section \<open>Conversions\<close>

text \<open>\<open>typeof v === 'object'\<close>: true of arrays and objects, and of null; false of functions.\<close>

fun typeof_object :: "jsval \<Rightarrow> bool" where
  "typeof_object JNull = True"
| "typeof_object (JArr xs) = True"
| "typeof_object (JObj kvs) = True"
| "typeof_object (JHostObject h) = True"
| "typeof_object v = False"

text \<open>\<open>Array.isArray(v)\<close>, with the elements of the array.\<close>

fun array_items :: "js_runtime \<Rightarrow> jsval \<Rightarrow> jsval list option" where
  "array_items rt (JArr xs) = Some xs"
| "array_items rt (JHostObject h) = (if host_isArray rt h then Some (host_items rt h) else None)"
| "array_items rt v = None"

text \<open>The results of a sequence of computations, up to the first that throws.\<close>

fun collect :: "(string + 'a) list \<Rightarrow> string + 'a list" where
  "collect [] = Inr []"
| "collect (x # xs) =
     (case x of
        Inl err \<Rightarrow> Inl err
      | Inr a \<Rightarrow> (case collect xs of Inl err \<Rightarrow> Inl err | Inr as \<Rightarrow> Inr (a # as)))"

text \<open>
  The TypeError of \<open>String(v)\<close> and \<open>Number(v)\<close> for an object that has no method to
  convert it: a parsed object with an own property \<open>toString\<close>, which hides the inherited
  method and is not callable, while \<open>valueOf\<close> returns the object itself.
\<close>

definition TypeError_primitive :: string where
  "TypeError_primitive = ''Cannot convert object to primitive value''"

text \<open>
  \<open>String(v)\<close>. An array renders its elements joined by commas, with null and undefined
  elements empty, and throws when an element does. An object renders as
  \<open>[object Object]\<close> unless an own property hides \<open>toString\<close>.
\<close>

fun ToString :: "js_runtime \<Rightarrow> jsval \<Rightarrow> string + string" where
  "ToString rt JUndefined = Inr ''undefined''"
| "ToString rt JNull = Inr ''null''"
| "ToString rt (JBool b) = Inr (if b then ''true'' else ''false'')"
| "ToString rt (JNum n) = Inr (Number_toString n)"
| "ToString rt (JStr s) = Inr s"
| "ToString rt (JArr xs) =
     (case collect (map (\<lambda>x. if x = JNull \<or> x = JUndefined then Inr [] else ToString rt x) xs) of
        Inl err \<Rightarrow> Inl err
      | Inr parts \<Rightarrow> Inr (join '','' parts))"
| "ToString rt (JObj kvs) =
     (if map_of kvs ''toString'' \<noteq> None then Inl TypeError_primitive
      else Inr ''[object Object]'')"
| "ToString rt (JFunction f) = Inr (function_text rt f)"
| "ToString rt (JHostObject h) = host_String rt h"

text \<open>
  \<open>Number(v)\<close>. An array converts through its string rendering, and so does a function;
  an object is NaN unless an own property hides \<open>toString\<close>.
\<close>

fun ToNumber :: "js_runtime \<Rightarrow> jsval \<Rightarrow> string + jsnum" where
  "ToNumber rt JUndefined = Inr NaN"
| "ToNumber rt JNull = Inr (Fin 0 0)"
| "ToNumber rt (JBool b) = Inr (if b then Fin 1 0 else Fin 0 0)"
| "ToNumber rt (JNum n) = Inr n"
| "ToNumber rt (JStr s) = Inr (StringToNumber s)"
| "ToNumber rt (JArr xs) =
     (case ToString rt (JArr xs) of Inl err \<Rightarrow> Inl err | Inr s \<Rightarrow> Inr (StringToNumber s))"
| "ToNumber rt (JObj kvs) =
     (case ToString rt (JObj kvs) of Inl err \<Rightarrow> Inl err | Inr s \<Rightarrow> Inr (StringToNumber s))"
| "ToNumber rt (JFunction f) = Inr (StringToNumber (function_text rt f))"
| "ToNumber rt (JHostObject h) = host_Number rt h"

text \<open>The optional expected value of a check as a dynamic value.\<close>

definition opt_value :: "string option \<Rightarrow> jsval" where
  "opt_value v = (case v of None \<Rightarrow> JUndefined | Some s \<Rightarrow> JStr s)"

text \<open>\<open>JSON.stringify\<close>: string quoting, then the rendering of a value.\<close>

definition hex4 :: "nat \<Rightarrow> string" where
  "hex4 n = [digit_char (n div 4096), digit_char (n div 256), digit_char (n div 16), digit_char n]"

definition quote_char :: "char \<Rightarrow> string" where
  "quote_char c =
     (if char_code c = 8 then [CHR 0x5C, CHR ''b'']
      else if char_code c = 9 then [CHR 0x5C, CHR ''t'']
      else if char_code c = 10 then [CHR 0x5C, CHR ''n'']
      else if char_code c = 12 then [CHR 0x5C, CHR ''f'']
      else if char_code c = 13 then [CHR 0x5C, CHR ''r'']
      else if char_code c = 34 then [CHR 0x5C, CHR 0x22]
      else if char_code c = 92 then [CHR 0x5C, CHR 0x5C]
      else if char_code c < 32 then [CHR 0x5C, CHR ''u''] @ hex4 (char_code c)
      else [c])"

definition quote_string :: "string \<Rightarrow> string" where
  "quote_string s = [CHR 0x22] @ concat (map quote_char s) @ [CHR 0x22]"

text \<open>
  \<open>None\<close> is the result \<open>undefined\<close>: an undefined value or a function has no rendering,
  is \<open>null\<close> inside an array and is left out of an object.
\<close>

fun JSON_stringify :: "js_runtime \<Rightarrow> jsval \<Rightarrow> string option" where
  "JSON_stringify rt JUndefined = None"
| "JSON_stringify rt JNull = Some ''null''"
| "JSON_stringify rt (JBool b) = Some (if b then ''true'' else ''false'')"
| "JSON_stringify rt (JNum n) =
     Some (case n of Fin m e \<Rightarrow> Number_toString n | _ \<Rightarrow> ''null'')"
| "JSON_stringify rt (JStr s) = Some (quote_string s)"
| "JSON_stringify rt (JArr xs) =
     Some (''['' @ join '',''
             (map (\<lambda>x. case JSON_stringify rt x of None \<Rightarrow> ''null'' | Some t \<Rightarrow> t) xs) @ '']'')"
| "JSON_stringify rt (JObj kvs) =
     Some (''{'' @ join '',''
             (concat (map (\<lambda>kv. case JSON_stringify rt (snd kv) of
                                     None \<Rightarrow> []
                                   | Some t \<Rightarrow> [quote_string (fst kv) @ '':'' @ t]) kvs)) @ ''}'')"
| "JSON_stringify rt (JFunction f) = None"
| "JSON_stringify rt (JHostObject h) = host_stringify rt h"

definition stringified :: "js_runtime \<Rightarrow> jsval \<Rightarrow> jsval" where
  "stringified rt v = (case JSON_stringify rt v of None \<Rightarrow> JUndefined | Some t \<Rightarrow> JStr t)"

section \<open>JSON path extraction\<close>

text \<open>
  A canonical array index: the decimal rendering of a natural number (no sign, no leading
  zero).
\<close>

definition array_index :: "string \<Rightarrow> nat option" where
  "array_index seg =
     (if seg \<noteq> [] \<and> list_all is_digit seg \<and> (seg = ''0'' \<or> \<not> startsWith seg ''0'')
      then Some (radix_value 10 0 seg) else None)"

text \<open>
  The property read \<open>current[segment]\<close> of the traversal. The own properties of a parsed
  value are the keys of an object and the indices and \<open>length\<close> of an array or a string;
  every other read goes along the prototype chain, which is the engine's.
\<close>

fun Get :: "js_runtime \<Rightarrow> jsval \<Rightarrow> string \<Rightarrow> string + jsval" where
  "Get rt (JObj kvs) seg =
     (case map_of kvs seg of None \<Rightarrow> Get_inherited rt (JObj kvs) seg | Some v \<Rightarrow> Inr v)"
| "Get rt (JArr xs) seg =
     (if seg = ''length'' then Inr (JNum (Fin (int (length xs)) 0))
      else (case array_index seg of
              None \<Rightarrow> Get_inherited rt (JArr xs) seg
            | Some i \<Rightarrow> if i < length xs then Inr (xs ! i) else Get_inherited rt (JArr xs) seg))"
| "Get rt (JStr s) seg =
     (if seg = ''length'' then Inr (JNum (Fin (int (length s)) 0))
      else (case array_index seg of
              None \<Rightarrow> Get_inherited rt (JStr s) seg
            | Some i \<Rightarrow> if i < length s then Inr (JStr [s ! i]) else Get_inherited rt (JStr s) seg))"
| "Get rt v seg = Get_inherited rt v seg"

text \<open>
  \<open>replace(/\[(\w+)\]/g, '.$1')\<close>: scanning from the left, a \<open>[\<close> followed by a non-empty
  run of word characters and a \<open>]\<close> becomes a dot and the run; the scan goes on after the
  bracket. Any other character is kept.
\<close>

function bracket_to_dot :: "string \<Rightarrow> string" where
  "bracket_to_dot [] = []"
| "bracket_to_dot (c # cs) =
     (if c = CHR ''['' \<and> takeWhile is_word cs \<noteq> [] \<and> startsWith (dropWhile is_word cs) '']''
      then ''.'' @ takeWhile is_word cs @ bracket_to_dot (drop 1 (dropWhile is_word cs))
      else c # bracket_to_dot cs)"
  by pat_completeness auto
termination
  by (relation "measure length") (auto simp: length_dropWhile_le less_Suc_eq_le le_trans [OF diff_le_self])

declare bracket_to_dot.simps(2) [simp del]

text \<open>The segments of a path, as \<open>extractJsonPath\<close> computes them.\<close>

definition path_segments :: "string \<Rightarrow> string list" where
  "path_segments path =
     (let normalizedPath = (if startsWith path ''$'' then drop 1 path else path);
          dotted = bracket_to_dot normalizedPath;
          stripped = (if startsWith dotted ''.'' then drop 1 dotted else dotted)
      in split_on CHR ''.'' stripped)"

text \<open>
  The loop of \<open>extractJsonPath\<close>: a null or undefined value ends it with \<open>undefined\<close>; a
  read that throws ends it with the exception.
\<close>

fun traverse :: "js_runtime \<Rightarrow> jsval \<Rightarrow> string list \<Rightarrow> string + jsval" where
  "traverse rt current [] = Inr current"
| "traverse rt current (segment # segments) =
     (if current = JNull \<or> current = JUndefined then Inr JUndefined
      else (case Get rt current segment of
              Inl err \<Rightarrow> Inl err
            | Inr next \<Rightarrow> traverse rt next segments))"

definition extractJsonPath :: "js_runtime \<Rightarrow> jsval \<Rightarrow> string \<Rightarrow> string + jsval" where
  "extractJsonPath rt json path = traverse rt json (path_segments path)"

section \<open>Checks, responses and results\<close>

datatype ComparisonOperator =
    Equals | NotEquals | Contains | NotContains | Matches | NotMatches
  | GreaterThan | LessThan | Exists | NotExists

fun op_name :: "ComparisonOperator \<Rightarrow> string" where
  "op_name Equals = ''equals''"
| "op_name NotEquals = ''not_equals''"
| "op_name Contains = ''contains''"
| "op_name NotContains = ''not_contains''"
| "op_name Matches = ''matches''"
| "op_name NotMatches = ''not_matches''"
| "op_name GreaterThan = ''greater_than''"
| "op_name LessThan = ''less_than''"
| "op_name Exists = ''exists''"
| "op_name NotExists = ''not_exists''"

datatype Element = First | Last | Any | All | Index int

fun element_name :: "Element \<Rightarrow> string" where
  "element_name First = ''first''"
| "element_name Last = ''last''"
| "element_name Any = ''any''"
| "element_name All = ''all''"
| "element_name (Index i) = Number_toString (Fin i 0)"

text \<open>
  The union \<open>Check\<close>. The arguments are the fields of each interface in the order of
  \<open>types.ts\<close>: operator and value; name, operator and optional value; operator and
  optional value; path, operator, optional value and optional element; operator and
  threshold. \<open>UnknownCheck\<close> is a check whose \<open>type\<close> is none of the five, which the
  evaluator's \<open>default\<close> branch answers.
\<close>

datatype Check =
    StatusCodeCheck ComparisonOperator string
  | HeaderCheck string ComparisonOperator "string option"
  | BodyCheck ComparisonOperator "string option"
  | JsonPathCheck string ComparisonOperator "string option" "Element option"
  | ResponseTimeCheck ComparisonOperator jsnum
  | UnknownCheck string

record ResponseData =
  statusCode :: int
  headers :: "(string \<times> string) list"
  body :: string
  responseTime :: int

record IndividualCheckResult =
  type :: string
  description :: string
  passed :: bool
  error :: "string option"
  actualValue :: jsval
  expectedValue :: jsval

text \<open>
  What every evaluator does after its \<open>try\<close> block: an exception (\<open>Inl\<close>) sets the error
  message and fails the check; \<open>error || undefined\<close> leaves an empty message out.
\<close>

definition check_result ::
  "string \<Rightarrow> string \<Rightarrow> string + bool \<Rightarrow> jsval \<Rightarrow> jsval \<Rightarrow> IndividualCheckResult" where
  "check_result ty desc attempt actual expected =
     \<lparr> type = ty,
       description = desc,
       passed = (case attempt of Inl err \<Rightarrow> False | Inr p \<Rightarrow> p),
       error = (case attempt of Inl err \<Rightarrow> (if err = [] then None else Some err)
                              | Inr p \<Rightarrow> None),
       actualValue = actual,
       expectedValue = expected \<rparr>"

section \<open>The value comparator\<close>

definition regex_test :: "js_runtime \<Rightarrow> string \<Rightarrow> string \<Rightarrow> string + bool" where
  "regex_test rt pattern subject =
     (case RegExp_new rt pattern of Inl err \<Rightarrow> Inl err | Inr regex \<Rightarrow> Inr (regex subject))"

definition negate :: "string + bool \<Rightarrow> string + bool" where
  "negate r = (case r of Inl err \<Rightarrow> Inl err | Inr b \<Rightarrow> Inr (\<not> b))"

text \<open>A computation on the text \<open>String(actual)\<close>, when the conversion does not throw.\<close>

definition with_text ::
  "js_runtime \<Rightarrow> jsval \<Rightarrow> (string \<Rightarrow> string + bool) \<Rightarrow> string + bool" where
  "with_text rt actual f = (case ToString rt actual of Inl err \<Rightarrow> Inl err | Inr s \<Rightarrow> f s)"

text \<open>
  \<open>compareValues\<close>; \<open>Inl\<close> is an exception: of a pattern that does not compile, or of
  \<open>String(actual)\<close> or \<open>Number(actual)\<close> on a value without a conversion. The pattern is
  compiled before the value is converted, and the actual value before the expected one.
\<close>

definition compareValues ::
  "js_runtime \<Rightarrow> jsval \<Rightarrow> ComparisonOperator \<Rightarrow> string option \<Rightarrow> string + bool" where
  "compareValues rt actual operator expected =
     (case operator of
        Exists \<Rightarrow> Inr (actual \<noteq> JUndefined \<and> actual \<noteq> JNull)
      | NotExists \<Rightarrow> Inr (actual = JUndefined \<or> actual = JNull)
      | Equals \<Rightarrow> with_text rt actual (\<lambda>s. Inr (Some s = expected))
      | NotEquals \<Rightarrow> with_text rt actual (\<lambda>s. Inr (Some s \<noteq> expected))
      | Contains \<Rightarrow> with_text rt actual (\<lambda>s. Inr (str_includes s (or_empty expected)))
      | NotContains \<Rightarrow> with_text rt actual (\<lambda>s. Inr (\<not> str_includes s (or_empty expected)))
      | Matches \<Rightarrow>
          (case RegExp_new rt (or_empty expected) of
             Inl err \<Rightarrow> Inl err
           | Inr regex \<Rightarrow> with_text rt actual (\<lambda>s. Inr (regex s)))
      | NotMatches \<Rightarrow>
          (case RegExp_new rt (or_empty expected) of
             Inl err \<Rightarrow> Inl err
           | Inr notRegex \<Rightarrow> with_text rt actual (\<lambda>s. Inr (\<not> notRegex s)))
      | GreaterThan \<Rightarrow>
          (case ToNumber rt actual of
             Inl err \<Rightarrow> Inl err
           | Inr a \<Rightarrow> (case ToNumber rt (opt_value expected) of
                         Inl err \<Rightarrow> Inl err
                       | Inr e \<Rightarrow> Inr (num_less e a)))
      | LessThan \<Rightarrow>
          (case ToNumber rt actual of
             Inl err \<Rightarrow> Inl err
           | Inr a \<Rightarrow> (case ToNumber rt (opt_value expected) of
                         Inl err \<Rightarrow> Inl err
                       | Inr e \<Rightarrow> Inr (num_less a e))))"

section \<open>The check evaluator\<close>

definition evaluateStatusCodeCheck ::
  "js_runtime \<Rightarrow> ComparisonOperator \<Rightarrow> string \<Rightarrow> ResponseData \<Rightarrow> IndividualCheckResult" where
  "evaluateStatusCodeCheck rt operator value response =
     (let codes = map (\<lambda>code. parseInt (trim code)) (split_on CHR ''|'' value);
          attempt =
            (case operator of
               Equals \<Rightarrow> Inr (Some (statusCode response) \<in> set codes)
             | NotEquals \<Rightarrow> Inr (Some (statusCode response) \<notin> set codes)
             | Matches \<Rightarrow>
                 regex_test rt value (Number_toString (Fin (statusCode response) 0))
             | NotMatches \<Rightarrow>
                 negate (regex_test rt value (Number_toString (Fin (statusCode response) 0)))
             | _ \<Rightarrow> Inr False)
      in check_result ''status_code''
           (''Status code '' @ op_name operator @ '' '' @ value)
           attempt (JNum (Fin (statusCode response) 0)) (JStr value))"

text \<open>The loop over \<open>Object.entries(headers)\<close>: the first key that matches, lowercased.\<close>

fun find_header :: "(string \<times> string) list \<Rightarrow> string \<Rightarrow> string option" where
  "find_header [] headerName = None"
| "find_header (kv # rest) headerName =
     (if toLowerCase (fst kv) = headerName then Some (snd kv) else find_header rest headerName)"

definition evaluateHeaderCheck ::
  "js_runtime \<Rightarrow> string \<Rightarrow> ComparisonOperator \<Rightarrow> string option \<Rightarrow> ResponseData
   \<Rightarrow> IndividualCheckResult" where
  "evaluateHeaderCheck rt name operator value response =
     (let headerName = toLowerCase name;
          headerValue = find_header (headers response) headerName;
          attempt =
            (case operator of
               Exists \<Rightarrow> Inr (headerValue \<noteq> None)
             | NotExists \<Rightarrow> Inr (headerValue = None)
             | Equals \<Rightarrow> Inr (headerValue = value)
             | NotEquals \<Rightarrow> Inr (headerValue \<noteq> value)
             | Contains \<Rightarrow>
                 Inr (case headerValue of None \<Rightarrow> False
                      | Some h \<Rightarrow> str_includes h (or_empty value))
             | NotContains \<Rightarrow>
                 Inr (case headerValue of None \<Rightarrow> True
                      | Some h \<Rightarrow> \<not> str_includes h (or_empty value))
             | Matches \<Rightarrow>
                 (case RegExp_new rt (or_empty value) of
                    Inl err \<Rightarrow> Inl err
                  | Inr regex \<Rightarrow>
                      Inr (case headerValue of None \<Rightarrow> False | Some h \<Rightarrow> regex h))
             | NotMatches \<Rightarrow>
                 (case RegExp_new rt (or_empty value) of
                    Inl err \<Rightarrow> Inl err
                  | Inr notRegex \<Rightarrow>
                      Inr (case headerValue of None \<Rightarrow> True | Some h \<Rightarrow> \<not> notRegex h))
             | _ \<Rightarrow> Inr False)
      in check_result ''header''
           (''Header '' @ name @ '' '' @ op_name operator @ '' '' @ or_empty value)
           attempt (opt_value headerValue) (opt_value value))"

definition evaluateBodyCheck ::
  "js_runtime \<Rightarrow> ComparisonOperator \<Rightarrow> string option \<Rightarrow> ResponseData
   \<Rightarrow> IndividualCheckResult" where
  "evaluateBodyCheck rt operator value response =
     (let attempt =
            (case operator of
               Exists \<Rightarrow> Inr (length (body response) > 0)
             | NotExists \<Rightarrow> Inr (length (body response) = 0)
             | Equals \<Rightarrow> Inr (Some (body response) = value)
             | NotEquals \<Rightarrow> Inr (Some (body response) \<noteq> value)
             | Contains \<Rightarrow> Inr (str_includes (body response) (or_empty value))
             | NotContains \<Rightarrow> Inr (\<not> str_includes (body response) (or_empty value))
             | Matches \<Rightarrow> regex_test rt (or_empty value) (body response)
             | NotMatches \<Rightarrow> negate (regex_test rt (or_empty value) (body response))
             | _ \<Rightarrow> Inr False)
      in check_result ''body''
           (''Body '' @ op_name operator @ '' '' @ or_empty value)
           attempt
           (JStr (if length (body response) > 100
                  then take 100 (body response) @ ''...'' else body response))
           (opt_value value))"

text \<open>\<open>results.map(item => compareValues(item, ...))\<close>: the first exception ends the map.\<close>

fun compare_each ::
  "js_runtime \<Rightarrow> jsval list \<Rightarrow> ComparisonOperator \<Rightarrow> string option \<Rightarrow> string + bool list" where
  "compare_each rt [] operator value = Inr []"
| "compare_each rt (item # items) operator value =
     (case compareValues rt item operator value of
        Inl err \<Rightarrow> Inl err
      | Inr b \<Rightarrow> (case compare_each rt items operator value of
                    Inl err \<Rightarrow> Inl err
                  | Inr bs \<Rightarrow> Inr (b # bs)))"

text \<open>\<open>extractedValue[i]\<close> on an array: undefined out of range.\<close>

definition element_at :: "jsval list \<Rightarrow> int \<Rightarrow> jsval" where
  "element_at xs i = (if 0 \<le> i \<and> i < int (length xs) then xs ! nat i else JUndefined)"

text \<open>
  The final \<open>return\<close> of \<open>evaluateJsonPathCheck\<close>, reached with the value \<open>actual\<close> that
  the \<open>try\<close> block had assigned to \<open>actualValue\<close> when it ended or threw.
\<close>

definition jsonpath_result ::
  "js_runtime \<Rightarrow> string \<Rightarrow> ComparisonOperator \<Rightarrow> string option \<Rightarrow> string + bool \<Rightarrow> jsval
   \<Rightarrow> IndividualCheckResult" where
  "jsonpath_result rt path operator value attempt actual =
     check_result ''jsonpath''
       (''JSON path '' @ path @ '' '' @ op_name operator @ '' '' @ or_empty value)
       attempt
       (if typeof_object actual then stringified rt actual else actual)
       (opt_value value)"

text \<open>The single-value path: the rendering of an object for containment, then the comparison.\<close>

definition compare_single ::
  "js_runtime \<Rightarrow> string \<Rightarrow> ComparisonOperator \<Rightarrow> string option \<Rightarrow> jsval
   \<Rightarrow> IndividualCheckResult" where
  "compare_single rt path operator value selected =
     (let actual =
            (if (operator = Contains \<or> operator = NotContains)
                \<and> typeof_object selected \<and> selected \<noteq> JNull
             then stringified rt selected else selected)
      in jsonpath_result rt path operator value
           (compareValues rt actual operator value) actual)"

definition evaluateJsonPathCheck ::
  "js_runtime \<Rightarrow> string \<Rightarrow> ComparisonOperator \<Rightarrow> string option \<Rightarrow> Element option
   \<Rightarrow> ResponseData \<Rightarrow> IndividualCheckResult" where
  "evaluateJsonPathCheck rt path operator value element_opt response =
     (let element = (case element_opt of None \<Rightarrow> First | Some e \<Rightarrow> e) in
      case JSON_parse rt (body response) of
        Inl err \<Rightarrow> jsonpath_result rt path operator value (Inl err) JNull
      | Inr jsonBody \<Rightarrow>
          (case extractJsonPath rt jsonBody path of
             Inl err \<Rightarrow> jsonpath_result rt path operator value (Inl err) JNull
           | Inr extractedValue \<Rightarrow>
               (case array_items rt extractedValue of
                  Some items \<Rightarrow>
                    (case element of
                       Index i \<Rightarrow> compare_single rt path operator value (element_at items i)
                     | First \<Rightarrow> compare_single rt path operator value (element_at items 0)
                     | Last \<Rightarrow>
                         compare_single rt path operator value
                           (element_at items (int (length items) - 1))
                     | _ \<Rightarrow>
                         (case compare_each rt items operator value of
                            Inl err \<Rightarrow> jsonpath_result rt path operator value (Inl err) JNull
                          | Inr results \<Rightarrow>
                              check_result ''jsonpath''
                                (''JSON path '' @ path @ '' '' @ element_name element @ '' ''
                                   @ op_name operator @ '' '' @ or_empty value)
                                (Inr (if element = Any
                                      then list_ex (\<lambda>result. result) results
                                      else list_all (\<lambda>result. result) results))
                                (stringified rt extractedValue)
                                (opt_value value)))
                | None \<Rightarrow> compare_single rt path operator value extractedValue)))"

definition evaluateResponseTimeCheck ::
  "ComparisonOperator \<Rightarrow> jsnum \<Rightarrow> ResponseData \<Rightarrow> IndividualCheckResult" where
  "evaluateResponseTimeCheck operator value response =
     check_result ''response_time''
       (''Response time '' @ op_name operator @ '' '' @ Number_toString value @ ''ms'')
       (case operator of
          LessThan \<Rightarrow> Inr (num_less (Fin (responseTime response) 0) value)
        | GreaterThan \<Rightarrow> Inr (num_less value (Fin (responseTime response) 0))
        | _ \<Rightarrow> Inr False)
       (JNum (Fin (responseTime response) 0))
       (JNum value)"

fun evaluateCheck :: "js_runtime \<Rightarrow> Check \<Rightarrow> ResponseData \<Rightarrow> IndividualCheckResult" where
  "evaluateCheck rt (StatusCodeCheck operator value) response =
     evaluateStatusCodeCheck rt operator value response"
| "evaluateCheck rt (HeaderCheck name operator value) response =
     evaluateHeaderCheck rt name operator value response"
| "evaluateCheck rt (BodyCheck operator value) response =
     evaluateBodyCheck rt operator value response"
| "evaluateCheck rt (JsonPathCheck path operator value element) response =
     evaluateJsonPathCheck rt path operator value element response"
| "evaluateCheck rt (ResponseTimeCheck operator value) response =
     evaluateResponseTimeCheck operator value response"
| "evaluateCheck rt (UnknownCheck ty) response =
     \<lparr> type = ''unknown'', description = ''Unknown check type'', passed = False,
       error = Some (''Unknown check type: '' @ ty),
       actualValue = JUndefined, expectedValue = JUndefined \<rparr>"

definition evaluateChecks ::
  "js_runtime \<Rightarrow> Check list \<Rightarrow> ResponseData \<Rightarrow> IndividualCheckResult list" where
  "evaluateChecks rt checks response = map (\<lambda>check. evaluateCheck rt check response) checks"

section \<open>The probe orchestrator\<close>

text \<open>
  The fields of \<open>UrlConfig\<close> and \<open>Config\<close> that \<open>checkUrl\<close> reads once the request has
  been made; the others (method, request headers, request body, timeout) only reach the
  transport. An optional field is an \<open>option\<close>.
\<close>

record UrlConfig =
  url :: string
  name :: "string option"
  successCodes :: "int list option"
  checks :: "Check list option"

record Config =
  globalSuccessCodes :: "int list option"

text \<open>\<open>CheckResult\<close>, without its time stamp.\<close>

record CheckResult =
  result_url :: string
  result_name :: "string option"
  success :: bool
  result_statusCode :: "int option"
  result_headers :: "(string \<times> string) list option"
  result_body :: "string option"
  result_error :: "string option"
  result_responseTime :: int
  checkResults :: "IndividualCheckResult list option"

text \<open>
  The default check of \<open>checkUrl\<close>:
  \<open>urlConfig.successCodes || this.config.globalSuccessCodes || [200]\<close>, where an array,
  even an empty one, is truthy.
\<close>

definition defaultStatusCodeCheck :: "Config \<Rightarrow> UrlConfig \<Rightarrow> Check" where
  "defaultStatusCodeCheck config urlConfig =
     (let codes =
            (case successCodes urlConfig of
               Some cs \<Rightarrow> cs
             | None \<Rightarrow> (case globalSuccessCodes config of Some gs \<Rightarrow> gs | None \<Rightarrow> [200]))
      in StatusCodeCheck Equals (join ''|'' (map (\<lambda>c. Number_toString (Fin c 0)) codes)))"

text \<open>\<open>if (urlConfig.checks && urlConfig.checks.length > 0) ... else ...\<close>\<close>

definition effectiveChecks :: "Config \<Rightarrow> UrlConfig \<Rightarrow> Check list" where
  "effectiveChecks config urlConfig =
     (case checks urlConfig of
        Some cs \<Rightarrow> if length cs > 0 then cs else [defaultStatusCodeCheck config urlConfig]
      | None \<Rightarrow> [defaultStatusCodeCheck config urlConfig])"

text \<open>
  One entry of the error message of a probe whose checks did not all pass: a template
  literal, which converts the expected and the actual value with \<open>String\<close>.
\<close>

definition failure_text :: "js_runtime \<Rightarrow> IndividualCheckResult \<Rightarrow> string + string" where
  "failure_text rt r =
     (case ToString rt (expectedValue r) of
        Inl err \<Rightarrow> Inl err
      | Inr expected \<Rightarrow>
          (case ToString rt (actualValue r) of
             Inl err \<Rightarrow> Inl err
           | Inr actual \<Rightarrow>
               Inr (description r @ '' - Expected: '' @ expected @ '', Actual: '' @ actual)))"

text \<open>The result of the \<open>catch\<close> block of \<open>checkUrl\<close>.\<close>

definition failed_probe :: "UrlConfig \<Rightarrow> string \<Rightarrow> int \<Rightarrow> CheckResult" where
  "failed_probe urlConfig errorMessage elapsed =
     \<lparr> result_url = url urlConfig, result_name = name urlConfig, success = False,
       result_statusCode = None, result_headers = None, result_body = None,
       result_error = Some errorMessage, result_responseTime = elapsed,
       checkResults = None \<rparr>"

text \<open>
  \<open>checkUrl\<close>. The outcome of \<open>makeRequest\<close> is an argument: the message of the error it
  rejected with, or the status code, headers and body of the response. So is the elapsed
  time, the difference of two clock readings. An exception while the error message is
  built would reach the same \<open>catch\<close> block as a rejected request.
\<close>

definition checkUrl ::
  "js_runtime \<Rightarrow> Config \<Rightarrow> UrlConfig \<Rightarrow> string + (int \<times> (string \<times> string) list \<times> string)
   \<Rightarrow> int \<Rightarrow> CheckResult" where
  "checkUrl rt config urlConfig outcome elapsed =
     (case outcome of
        Inl errorMessage \<Rightarrow> failed_probe urlConfig errorMessage elapsed
      | Inr (code_, headers_, body_) \<Rightarrow>
          (let results =
                 evaluateChecks rt (effectiveChecks config urlConfig)
                   \<lparr> statusCode = code_, headers = headers_, body = body_,
                     responseTime = elapsed \<rparr>;
               ok = list_all passed results;
               texts = (if ok then Inr []
                        else collect (map (failure_text rt) (filter (\<lambda>r. \<not> passed r) results)))
           in case texts of
                Inl errorMessage \<Rightarrow> failed_probe urlConfig errorMessage elapsed
              | Inr failures \<Rightarrow>
                  \<lparr> result_url = url urlConfig, result_name = name urlConfig, success = ok,
                    result_statusCode = Some code_, result_headers = Some headers_,
                    result_body =
                      Some (if length body_ > 1024 then take 1024 body_ @ ''...'' else body_),
                    result_error = (if ok then None else Some (join ''; '' failures)),
                    result_responseTime = elapsed,
                    checkResults = Some results \<rparr>))"

section \<open>A reference engine\<close>

text \<open>
  To evaluate the model on concrete inputs, an engine is given here for a fragment of
  its inputs. The theorems about the evaluator hold for every engine; only their
  instances at concrete inputs use this one. Its prototype objects hold no members: a
  read of a property that is not an own property gives \<open>undefined\<close>, and no object of
  the engine is ever reached.

  Regular expressions: a pattern without syntax characters is a literal, and its \<open>test\<close>
  is a substring search. Every other pattern is rejected here, as the engine rejects e.g.
  an unterminated group \<open>(\<close>.
\<close>

definition syntax_char :: "char \<Rightarrow> bool" where
  "syntax_char c = (c = CHR 0x5C \<or> c \<in> set ''^$.*+?()[]{}|'')"

definition literal_RegExp :: "string \<Rightarrow> string + (string \<Rightarrow> bool)" where
  "literal_RegExp pattern =
     (if list_ex syntax_char pattern
      then Inl (''Invalid regular expression: /'' @ pattern @ ''/'')
      else Inr (\<lambda>subject. str_includes subject pattern))"

text \<open>
  JSON: a recursive-descent parser of the JSON grammar. Strings are the Latin-1 strings of
  the model, so a \<open>\uXXXX\<close> escape above \<open>00FF\<close> is rejected here. The parser spends one
  unit of fuel on every value and on every element or member it reads; \<open>ref_JSON_parse\<close>
  starts it with two units for every character of the text.
\<close>

definition json_ws :: "char \<Rightarrow> bool" where
  "json_ws c = (char_code c = 32 \<or> char_code c = 9 \<or> char_code c = 10 \<or> char_code c = 13)"

definition skip_ws :: "string \<Rightarrow> string" where
  "skip_ws s = dropWhile json_ws s"

definition unescape :: "char \<Rightarrow> char option" where
  "unescape c =
     (if c = CHR 0x22 \<or> c = CHR 0x5C \<or> c = CHR ''/'' then Some c
      else if c = CHR ''b'' then Some (CHR 0x08)
      else if c = CHR ''f'' then Some (CHR 0x0C)
      else if c = CHR ''n'' then Some (CHR 0x0A)
      else if c = CHR ''r'' then Some (CHR 0x0D)
      else if c = CHR ''t'' then Some (CHR 0x09)
      else None)"

definition push_char :: "char \<Rightarrow> (string \<times> string) option \<Rightarrow> (string \<times> string) option" where
  "push_char c r = (case r of None \<Rightarrow> None | Some (s, rest) \<Rightarrow> Some (c # s, rest))"

text \<open>The characters of a string after its opening quote, and the text after the closing one.\<close>

fun parse_chars :: "string \<Rightarrow> (string \<times> string) option" where
  "parse_chars [] = None"
| "parse_chars (c # cs) =
     (if c = CHR 0x22 then Some ([], cs)
      else if c = CHR 0x5C then
        (case cs of
           [] \<Rightarrow> None
         | e # r \<Rightarrow>
             if e = CHR ''u'' then
               (case r of
                  a # b # c' # d # r' \<Rightarrow>
                    if list_all is_hex [a, b, c', d] \<and> radix_value 16 0 [a, b, c', d] < 256
                    then push_char (char_of (radix_value 16 0 [a, b, c', d])) (parse_chars r')
                    else None
                | _ \<Rightarrow> None)
             else (case unescape e of
                     None \<Rightarrow> None
                   | Some u \<Rightarrow> push_char u (parse_chars r)))
      else if char_code c < 32 then None
      else push_char c (parse_chars cs))"

text \<open>A JSON number at the head of a text, and the text after it.\<close>

definition parse_number :: "string \<Rightarrow> (jsnum \<times> string) option" where
  "parse_number s =
     (let neg = startsWith s ''-'';
          u = (if neg then drop 1 s else s);
          ip = (if startsWith u ''0'' then ''0'' else takeWhile is_digit u);
          r1 = drop (length ip) u;
          dot = startsWith r1 ''.'';
          fp = (if dot then takeWhile is_digit (drop 1 r1) else []);
          r2 = (if dot then dropWhile is_digit (drop 1 r1) else r1);
          ex = startsWith r2 ''e'' \<or> startsWith r2 ''E'';
          r3 = drop 1 r2;
          eneg = startsWith r3 ''-'';
          r4 = (if startsWith r3 ''-'' \<or> startsWith r3 ''+'' then drop 1 r3 else r3);
          ed = takeWhile is_digit r4
      in if ip = [] \<or> (dot \<and> fp = []) \<or> (ex \<and> ed = []) then None
         else Some (Fin ((if neg then - 1 else 1) * int (radix_value 10 0 (ip @ fp)))
                        ((if ex then (if eneg then - 1 else 1) * int (radix_value 10 0 ed)
                          else 0) - int (length fp)),
                    if ex then dropWhile is_digit r4 else r2))"

text \<open>
  Defining a property of an object under construction: a key already there keeps its
  place and takes the new value; a new array-index key goes among the index keys in
  ascending order, before every other key; any other new key goes last.
\<close>

fun insert_index ::
  "nat \<Rightarrow> string \<Rightarrow> jsval \<Rightarrow> (string \<times> jsval) list \<Rightarrow> (string \<times> jsval) list" where
  "insert_index n k v [] = [(k, v)]"
| "insert_index n k v (kv # kvs) =
     (case array_index (fst kv) of
        None \<Rightarrow> (k, v) # kv # kvs
      | Some m \<Rightarrow> if int m < 4294967295 \<and> m < n then kv # insert_index n k v kvs
                  else (k, v) # kv # kvs)"

definition obj_set :: "(string \<times> jsval) list \<Rightarrow> string \<Rightarrow> jsval \<Rightarrow> (string \<times> jsval) list" where
  "obj_set kvs k v =
     (if map_of kvs k \<noteq> None then map (\<lambda>kv. if fst kv = k then (k, v) else kv) kvs
      else (case array_index k of
              None \<Rightarrow> kvs @ [(k, v)]
            | Some n \<Rightarrow> if int n < 4294967295 then insert_index n k v kvs else kvs @ [(k, v)]))"

fun parse_value :: "nat \<Rightarrow> string \<Rightarrow> (jsval \<times> string) option"
  and parse_elements :: "nat \<Rightarrow> jsval list \<Rightarrow> string \<Rightarrow> (jsval \<times> string) option"
  and parse_members :: "nat \<Rightarrow> (string \<times> jsval) list \<Rightarrow> string \<Rightarrow> (jsval \<times> string) option"
where
  "parse_value 0 s = None"
| "parse_value (Suc fuel) s =
     (let t = skip_ws s in
      if startsWith t ''['' then
        (if startsWith (skip_ws (drop 1 t)) '']'' then Some (JArr [], drop 1 (skip_ws (drop 1 t)))
         else parse_elements fuel [] (drop 1 t))
      else if startsWith t ''{'' then
        (if startsWith (skip_ws (drop 1 t)) ''}'' then Some (JObj [], drop 1 (skip_ws (drop 1 t)))
         else parse_members fuel [] (drop 1 t))
      else if startsWith t [CHR 0x22] then
        (case parse_chars (drop 1 t) of None \<Rightarrow> None | Some (str, rest) \<Rightarrow> Some (JStr str, rest))
      else if startsWith t ''true'' then Some (JBool True, drop 4 t)
      else if startsWith t ''false'' then Some (JBool False, drop 5 t)
      else if startsWith t ''null'' then Some (JNull, drop 4 t)
      else (case parse_number t of None \<Rightarrow> None | Some (n, rest) \<Rightarrow> Some (JNum n, rest)))"
| "parse_elements 0 acc s = None"
| "parse_elements (Suc fuel) acc s =
     (case parse_value fuel s of
        None \<Rightarrow> None
      | Some (v, rest) \<Rightarrow>
          (let t = skip_ws rest in
           if startsWith t '','' then parse_elements fuel (acc @ [v]) (drop 1 t)
           else if startsWith t '']'' then Some (JArr (acc @ [v]), drop 1 t)
           else None))"
| "parse_members 0 acc s = None"
| "parse_members (Suc fuel) acc s =
     (let t = skip_ws s in
      if startsWith t [CHR 0x22] then
        (case parse_chars (drop 1 t) of
           None \<Rightarrow> None
         | Some (key, rest) \<Rightarrow>
             if startsWith (skip_ws rest) '':'' then
               (case parse_value fuel (drop 1 (skip_ws rest)) of
                  None \<Rightarrow> None
                | Some (v, rest') \<Rightarrow>
                    (let t' = skip_ws rest' in
                     if startsWith t' '','' then parse_members fuel (obj_set acc key v) (drop 1 t')
                     else if startsWith t' ''}'' then Some (JObj (obj_set acc key v), drop 1 t')
                     else None))
             else None)
      else None)"

definition ref_JSON_parse :: "string \<Rightarrow> string + jsval" where
  "ref_JSON_parse text =
     (case parse_value (2 * length text + 2) text of
        None \<Rightarrow> Inl ''Unexpected token or end of JSON input''
      | Some (v, rest) \<Rightarrow>
          if skip_ws rest = [] then Inr v else Inl ''Unexpected token or end of JSON input'')"

definition ref_runtime :: js_runtime where
  "ref_runtime =
     \<lparr> RegExp_new = literal_RegExp,
       JSON_parse = ref_JSON_parse,
       Get_inherited = (\<lambda>v key. Inr JUndefined),
       function_text = (\<lambda>f. ''function () { [native code] }''),
       host_isArray = (\<lambda>h. False),
       host_items = (\<lambda>h. []),
       host_String = (\<lambda>h. Inr ''[object Object]''),
       host_Number = (\<lambda>h. Inr NaN),
       host_stringify = (\<lambda>h. Some ''{}'') \<rparr>"

section \<open>Facts about the helpers\<close>

lemmas char_class_defs =
  char_code_def is_ws_def is_digit_def is_upper_def is_lower_def is_word_def hex_val_def

lemma passed_check_result:
  "passed (check_result ty desc attempt actual expected)
     = (case attempt of Inl err \<Rightarrow> False | Inr p \<Rightarrow> p)"
  by (simp add: check_result_def)

lemma error_check_result:
  "error (check_result ty desc attempt actual expected)
     = (case attempt of Inl err \<Rightarrow> (if err = [] then None else Some err) | Inr p \<Rightarrow> None)"
  by (simp add: check_result_def)

lemma actualValue_check_result:
  "actualValue (check_result ty desc attempt actual expected) = actual"
  by (simp add: check_result_def)

lemma codes_200_301_302:
  "map (\<lambda>code. parseInt (trim code)) (split_on CHR ''|'' ''200|301|302'')
     = [Some 200, Some 301, Some 302]"
  by (simp add: parseInt_def trim_def char_class_defs)

section \<open>Status-code checks\<close>

text \<open>
  Claim C2. A status-code check \<open>equals\<close> with value \<open>200|301|302\<close> passes exactly when
  the status code of the response is 200, 301 or 302 (so it fails for 404). In general
  \<open>equals\<close> and \<open>not_equals\<close> split the value at \<open>|\<close>, parse every segment as an integer
  and test whether the status code is among the results.
\<close>

theorem status_code_equals_membership:
  "passed (evaluateStatusCodeCheck rt Equals ''200|301|302'' response)
     = (statusCode response \<in> {200, 301, 302})
   \<and> passed (evaluateStatusCodeCheck rt Equals value response)
     = (Some (statusCode response)
          \<in> set (map (\<lambda>seg. parseInt (trim seg)) (split_on CHR ''|'' value)))
   \<and> passed (evaluateStatusCodeCheck rt NotEquals value response)
     = (Some (statusCode response)
          \<notin> set (map (\<lambda>seg. parseInt (trim seg)) (split_on CHR ''|'' value)))"
proof -
  have general: "passed (evaluateStatusCodeCheck rt Equals v response)
     = (Some (statusCode response)
          \<in> set (map (\<lambda>seg. parseInt (trim seg)) (split_on CHR ''|'' v)))" for v
    by (simp add: evaluateStatusCodeCheck_def passed_check_result)
  have neg: "passed (evaluateStatusCodeCheck rt NotEquals value response)
     = (Some (statusCode response)
          \<notin> set (map (\<lambda>seg. parseInt (trim seg)) (split_on CHR ''|'' value)))"
    by (simp add: evaluateStatusCodeCheck_def passed_check_result)
  have "passed (evaluateStatusCodeCheck rt Equals ''200|301|302'' response)
     = (statusCode response \<in> {200, 301, 302})"
    unfolding general codes_200_301_302 by auto
  with general neg show ?thesis by blast
qed

theorem status_code_equals_membership_witness:
  "\<not> passed (evaluateStatusCodeCheck ref_runtime Equals ''200|301|302''
        \<lparr> statusCode = 404, headers = [], body = [], responseTime = 0 \<rparr>)
   \<and> passed (evaluateStatusCodeCheck ref_runtime Equals ''200|301|302''
        \<lparr> statusCode = 301, headers = [], body = [], responseTime = 0 \<rparr>)"
  using status_code_equals_membership [THEN conjunct1, of ref_runtime
          "\<lparr> statusCode = 404, headers = [], body = [], responseTime = 0 \<rparr>"]
        status_code_equals_membership [THEN conjunct1, of ref_runtime
          "\<lparr> statusCode = 301, headers = [], body = [], responseTime = 0 \<rparr>"]
  by simp

section \<open>JSON path normalisation\<close>

lemma not_word_bracket: "\<not> is_word CHR ''[''" "\<not> is_word CHR '']''" "\<not> is_word CHR ''.''"
  by (simp_all add: char_class_defs)

lemma takeWhile_all_then_stop:
  "list_all P xs \<Longrightarrow> \<not> P y \<Longrightarrow> takeWhile P (xs @ y # ys) = xs"
  by (induction xs) auto

lemma dropWhile_all_then_stop:
  "list_all P xs \<Longrightarrow> \<not> P y \<Longrightarrow> dropWhile P (xs @ y # ys) = y # ys"
  by (induction xs) auto

lemma bracket_to_dot_match:
  "takeWhile is_word cs \<noteq> [] \<Longrightarrow> startsWith (dropWhile is_word cs) '']'' \<Longrightarrow>
   bracket_to_dot (CHR ''['' # cs)
     = ''.'' @ takeWhile is_word cs @ bracket_to_dot (drop 1 (dropWhile is_word cs))"
  by (simp add: bracket_to_dot.simps(2)[of "CHR ''[''" cs])

lemma bracket_to_dot_skip:
  "\<not> (c = CHR ''['' \<and> takeWhile is_word cs \<noteq> [] \<and> startsWith (dropWhile is_word cs) '']'') \<Longrightarrow>
   bracket_to_dot (c # cs) = c # bracket_to_dot cs"
  by (simp add: bracket_to_dot.simps(2)[of c cs])

lemma bracket_to_dot_separator:
  "\<not> is_word c \<Longrightarrow> c \<noteq> CHR '']'' \<Longrightarrow>
   bracket_to_dot (p @ c # t) = bracket_to_dot p @ bracket_to_dot (c # t)"
proof (induction p rule: bracket_to_dot.induct)
  case 1
  show ?case by simp
next
  case (2 x xs)
  show ?case
  proof (cases "list_all is_word xs")
    case True
    with 2 have tw: "takeWhile is_word (xs @ c # t) = xs"
      and dw: "dropWhile is_word (xs @ c # t) = c # t"
      by (simp_all add: takeWhile_all_then_stop dropWhile_all_then_stop)
    from True have dw': "dropWhile is_word xs = []"
      by (simp add: list_all_iff)
    have no: "\<not> (x = CHR ''['' \<and> takeWhile is_word xs \<noteq> []
                \<and> startsWith (dropWhile is_word xs) '']'')"
      by (simp add: dw')
    have no': "\<not> (x = CHR ''['' \<and> takeWhile is_word (xs @ c # t) \<noteq> []
                \<and> startsWith (dropWhile is_word (xs @ c # t)) '']'')"
      using 2(4) by (simp add: dw)
    have "bracket_to_dot ((x # xs) @ c # t) = x # bracket_to_dot (xs @ c # t)"
      using bracket_to_dot_skip[OF no'] by simp
    also have "\<dots> = x # bracket_to_dot xs @ bracket_to_dot (c # t)"
      using 2(2)[OF no 2(3) 2(4)] by simp
    also have "\<dots> = bracket_to_dot (x # xs) @ bracket_to_dot (c # t)"
      using bracket_to_dot_skip[OF no] by simp
    finally show ?thesis .
  next
    case False
    then have "dropWhile is_word xs \<noteq> []"
      by (simp add: list_all_iff)
    then obtain y ys where dw: "dropWhile is_word xs = y # ys"
      by (cases "dropWhile is_word xs") auto
    then have ny: "\<not> is_word y"
      using hd_dropWhile[of is_word xs] by auto
    have all_tw: "list_all is_word (takeWhile is_word xs)"
      by (auto simp: list_all_iff dest: set_takeWhileD)
    have e: "xs @ c # t = takeWhile is_word xs @ y # (ys @ c # t)"
      by (metis takeWhile_dropWhile_id dw append_assoc append_Cons)
    have tw2: "takeWhile is_word (xs @ c # t) = takeWhile is_word xs"
      by (simp only: e takeWhile_all_then_stop[OF all_tw ny])
    have dw2: "dropWhile is_word (xs @ c # t) = y # ys @ c # t"
      by (simp only: e dropWhile_all_then_stop[OF all_tw ny])
    show ?thesis
    proof (cases "x = CHR ''['' \<and> takeWhile is_word xs \<noteq> []
                   \<and> startsWith (dropWhile is_word xs) '']''")
      case yes: True
      then have x: "x = CHR ''[''" and ne: "takeWhile is_word xs \<noteq> []"
        and st: "startsWith (dropWhile is_word xs) '']''"
        by simp_all
      have st2: "startsWith (dropWhile is_word (xs @ c # t)) '']''"
        using st by (simp add: dw dw2)
      have "bracket_to_dot ((x # xs) @ c # t)
              = ''.'' @ takeWhile is_word xs @ bracket_to_dot (ys @ c # t)"
        using bracket_to_dot_match[of "xs @ c # t"] ne st2 by (simp add: x tw2 dw2)
      also have "\<dots> = ''.'' @ takeWhile is_word xs @ bracket_to_dot ys @ bracket_to_dot (c # t)"
        using 2(1)[OF yes 2(3) 2(4)] by (simp add: dw)
      also have "\<dots> = bracket_to_dot (x # xs) @ bracket_to_dot (c # t)"
        using bracket_to_dot_match[OF ne st] by (simp add: x dw)
      finally show ?thesis .
    next
      case no: False
      then have no': "\<not> (x = CHR ''['' \<and> takeWhile is_word (xs @ c # t) \<noteq> []
                \<and> startsWith (dropWhile is_word (xs @ c # t)) '']'')"
        by (simp add: tw2 dw2 dw)
      have "bracket_to_dot ((x # xs) @ c # t) = x # bracket_to_dot (xs @ c # t)"
        using bracket_to_dot_skip[OF no'] by simp
      also have "\<dots> = x # bracket_to_dot xs @ bracket_to_dot (c # t)"
        using 2(2)[OF no 2(3) 2(4)] by simp
      also have "\<dots> = bracket_to_dot (x # xs) @ bracket_to_dot (c # t)"
        using bracket_to_dot_skip[OF no] by simp
      finally show ?thesis .
    qed
  qed
qed

lemma bracket_to_dot_word:
  "list_all is_word n \<Longrightarrow> bracket_to_dot (n @ s) = n @ bracket_to_dot s"
proof (induction n)
  case Nil
  show ?case by simp
next
  case (Cons x n)
  then have "x \<noteq> CHR ''[''" using not_word_bracket(1) by auto
  then have "bracket_to_dot (x # (n @ s)) = x # bracket_to_dot (n @ s)"
    by (intro bracket_to_dot_skip) simp
  with Cons show ?case by simp
qed

lemma bracket_to_dot_index:
  assumes "n \<noteq> []" "list_all is_word n"
  shows "bracket_to_dot (''['' @ n @ '']'' @ s) = ''.'' @ n @ bracket_to_dot s"
proof -
  have tw: "takeWhile is_word (n @ CHR '']'' # s) = n" and dw: "dropWhile is_word (n @ CHR '']'' # s) = CHR '']'' # s"
    using assms(2) not_word_bracket(2) by (simp_all add: takeWhile_all_then_stop dropWhile_all_then_stop)
  show ?thesis using assms(1) bracket_to_dot_match[of "n @ CHR '']'' # s"] by (simp add: tw dw)
qed

lemma bracket_to_dot_normalizes:
  assumes "n \<noteq> []" "list_all is_word n"
  shows "bracket_to_dot (p @ ''['' @ n @ '']'' @ s) = bracket_to_dot (p @ ''.'' @ n @ s)"
proof -
  have "bracket_to_dot (p @ ''['' @ n @ '']'' @ s) = bracket_to_dot p @ ''.'' @ n @ bracket_to_dot s"
    using bracket_to_dot_separator[of "CHR ''[''" p "n @ '']'' @ s"] bracket_to_dot_index[OF assms, of s] not_word_bracket
    by simp
  moreover have "bracket_to_dot (p @ ''.'' @ n @ s) = bracket_to_dot p @ ''.'' @ n @ bracket_to_dot s"
    using bracket_to_dot_separator[of "CHR ''.''" p "n @ s"] bracket_to_dot_word[OF assms(2), of s] not_word_bracket
    by (simp add: bracket_to_dot_skip)
  ultimately show ?thesis by simp
qed

lemma path_segments_normalizes:
  assumes "n \<noteq> []" "list_all is_word n"
  shows "path_segments (p @ ''['' @ n @ '']'' @ s) = path_segments (p @ ''.'' @ n @ s)"
proof (cases p)
  case Nil
  then show ?thesis using bracket_to_dot_normalizes[OF assms, of "[]" s]
    by (simp add: path_segments_def)
next
  case (Cons c q)
  then show ?thesis
    using bracket_to_dot_normalizes[OF assms, of q s] bracket_to_dot_normalizes[OF assms, of "c # q" s]
    by (simp add: path_segments_def)
qed

lemma split_on_without_separator: "d \<notin> set w \<Longrightarrow> split_on d w = [w]"
  by (induction w) auto

lemma split_on_at_separator:
  "d \<notin> set a \<Longrightarrow> split_on d (a @ d # b) = a # split_on d b"
  by (induction a) auto

lemma word_has_no_dot: "list_all is_word w \<Longrightarrow> CHR ''.'' \<notin> set w"
  using not_word_bracket(3) by (auto simp: list_all_iff)

lemma word_starts_with_neither:
  assumes "w \<noteq> []" and "list_all is_word w"
  shows "\<not> startsWith (w @ t) ''$''" and "\<not> startsWith (w @ t) ''.''"
proof -
  from assms obtain c cs where w: "w = c # cs" and c: "is_word c"
    by (cases w) auto
  from c have "c \<noteq> CHR ''$''" and "c \<noteq> CHR ''.''"
    by (auto simp: char_class_defs)
  with w show "\<not> startsWith (w @ t) ''$''" and "\<not> startsWith (w @ t) ''.''"
    by simp_all
qed

lemma bracket_to_dot_indices:
  "list_all (\<lambda>m. m \<noteq> [] \<and> list_all is_word m) ns \<Longrightarrow>
   bracket_to_dot (concat (map (\<lambda>m. ''['' @ m @ '']'') ns)) = concat (map (\<lambda>m. ''.'' @ m) ns)"
proof (induction ns)
  case Nil
  show ?case by simp
next
  case (Cons m ns)
  then have m: "m \<noteq> []" "list_all is_word m" by simp_all
  from bracket_to_dot_index[OF m, of "concat (map (\<lambda>m. ''['' @ m @ '']'') ns)"] Cons
  show ?case by simp
qed

lemma split_on_dotted_words:
  "list_all is_word w \<Longrightarrow> list_all (\<lambda>m. m \<noteq> [] \<and> list_all is_word m) ns \<Longrightarrow>
   split_on CHR ''.'' (w @ concat (map (\<lambda>m. ''.'' @ m) ns)) = w # ns"
proof (induction ns arbitrary: w)
  case Nil
  then show ?case by (simp add: split_on_without_separator word_has_no_dot)
next
  case (Cons m ns)
  then have "split_on CHR ''.'' (m @ concat (map (\<lambda>m. ''.'' @ m) ns)) = m # ns"
    by simp
  with Cons.prems(1) show ?case
    using split_on_at_separator[of "CHR ''.''" w "m @ concat (map (\<lambda>m. ''.'' @ m) ns)"]
    by (simp add: word_has_no_dot)
qed

lemma path_segments_of_indices:
  assumes "w \<noteq> []" and "list_all is_word w"
    and "list_all (\<lambda>m. m \<noteq> [] \<and> list_all is_word m) ns"
  shows "path_segments (w @ concat (map (\<lambda>m. ''['' @ m @ '']'') ns)) = w # ns"
proof -
  let ?brackets = "concat (map (\<lambda>m. ''['' @ m @ '']'') ns)"
  let ?dots = "concat (map (\<lambda>m. ''.'' @ m) ns)"
  have dotted: "bracket_to_dot (w @ ?brackets) = w @ ?dots"
    using bracket_to_dot_word[OF assms(2), of ?brackets] bracket_to_dot_indices[OF assms(3)]
    by simp
  have whole: "(if startsWith (w @ ?brackets) ''$'' then drop 1 (w @ ?brackets)
                 else w @ ?brackets) = w @ ?brackets"
    by (simp only: word_starts_with_neither(1)[OF assms(1,2)] if_False)
  have kept: "(if startsWith (w @ ?dots) ''.'' then drop 1 (w @ ?dots) else w @ ?dots)
                = w @ ?dots"
    by (simp only: word_starts_with_neither(2)[OF assms(1,2)] if_False)
  show ?thesis
    unfolding path_segments_def Let_def whole dotted kept
    by (rule split_on_dotted_words[OF assms(2,3)])
qed

lemma bracket_to_dot_without_bracket: "CHR ''['' \<notin> set t \<Longrightarrow> bracket_to_dot t = t"
proof (induction t)
  case Nil
  show ?case by simp
next
  case (Cons c cs)
  then have "bracket_to_dot (c # cs) = c # bracket_to_dot cs"
    by (intro bracket_to_dot_skip) auto
  with Cons show ?case by simp
qed

lemma path_segments_of_dots:
  assumes "w \<noteq> []" and "list_all is_word w"
    and "list_all (\<lambda>m. m \<noteq> [] \<and> list_all is_word m) ns"
  shows "path_segments (w @ concat (map (\<lambda>m. ''.'' @ m) ns)) = w # ns"
proof -
  let ?dots = "concat (map (\<lambda>m. ''.'' @ m) ns)"
  have "CHR ''['' \<notin> set (w @ ?dots)"
    using assms(2,3) not_word_bracket(1) by (auto simp: list_all_iff)
  then have dotted: "bracket_to_dot (w @ ?dots) = w @ ?dots"
    by (rule bracket_to_dot_without_bracket)
  have whole: "(if startsWith (w @ ?dots) ''$'' then drop 1 (w @ ?dots) else w @ ?dots)
                 = w @ ?dots"
    by (simp only: word_starts_with_neither(1)[OF assms(1,2)] if_False)
  have kept: "(if startsWith (w @ ?dots) ''.'' then drop 1 (w @ ?dots) else w @ ?dots)
                = w @ ?dots"
    by (simp only: word_starts_with_neither(2)[OF assms(1,2)] if_False)
  show ?thesis
    unfolding path_segments_def Let_def whole dotted kept
    by (rule split_on_dotted_words[OF assms(2,3)])
qed

lemma array_index_is_not_length: "array_index m = Some i \<Longrightarrow> m \<noteq> ''length''"
  by (auto simp: array_index_def char_class_defs split: if_splits)

lemma extract_key_then_index:
  assumes "path_segments path = [key, m]" and "map_of kvs key = Some (JArr xs)"
    and "array_index m = Some i" and "i < length xs"
  shows "extractJsonPath rt (JObj kvs) path = Inr (xs ! i)"
  using assms array_index_is_not_length[OF assms(3)]
  by (simp add: extractJsonPath_def)

text \<open>
  Claim C8. Extraction treats a bracket index as sugar for a dotted segment. Wherever a
  path holds \<open>[n]\<close>, with \<open>n\<close> a non-empty run of word characters (so every numeric
  index), the normalised text holds \<open>.n\<close> in its place, and the path with \<open>.n\<close> written
  instead has the same segments and extracts the same from every document; the brackets
  of a path can be replaced one at a time, in any context \<open>p\<close>, \<open>s\<close>. A key followed by
  bracket indices has the key and then one segment for each index, and the extraction
  descends by them: on an object whose \<open>key\<close> holds an array, \<open>key[n]\<close> extracts the
  element at \<open>n\<close>. \<open>tags[0]\<close> and \<open>tags.0\<close> are the instance of the witness.
\<close>

theorem bracket_index_is_dotted_segment:
  assumes "n \<noteq> []" and "list_all is_word n"
  shows "path_segments (p @ ''['' @ n @ '']'' @ s) = path_segments (p @ ''.'' @ n @ s)
       \<and> extractJsonPath rt doc (p @ ''['' @ n @ '']'' @ s) = extractJsonPath rt doc (p @ ''.'' @ n @ s)
       \<and> bracket_to_dot (p @ ''['' @ n @ '']'' @ s)
           = bracket_to_dot p @ ''.'' @ n @ bracket_to_dot s
       \<and> (key \<noteq> [] \<and> list_all is_word key
            \<and> list_all (\<lambda>m. m \<noteq> [] \<and> list_all is_word m) ns
          \<longrightarrow> path_segments (key @ concat (map (\<lambda>m. ''['' @ m @ '']'') (n # ns))) = key # n # ns
            \<and> path_segments (key @ concat (map (\<lambda>m. ''.'' @ m) (n # ns))) = key # n # ns)
       \<and> (key \<noteq> [] \<and> list_all is_word key \<and> map_of kvs key = Some (JArr xs)
            \<and> array_index n = Some i \<and> i < length xs
          \<longrightarrow> extractJsonPath rt (JObj kvs) (key @ ''['' @ n @ '']'') = Inr (xs ! i)
            \<and> extractJsonPath rt (JObj kvs) (key @ ''.'' @ n) = Inr (xs ! i))"
proof -
  have same: "path_segments (p @ ''['' @ n @ '']'' @ s) = path_segments (p @ ''.'' @ n @ s)"
    by (rule path_segments_normalizes[OF assms])
  have norm: "bracket_to_dot (p @ ''['' @ n @ '']'' @ s)
           = bracket_to_dot p @ ''.'' @ n @ bracket_to_dot s"
    using bracket_to_dot_separator[of "CHR ''[''" p "n @ '']'' @ s"]
      bracket_to_dot_index[OF assms, of s] not_word_bracket
    by simp
  have segs: "path_segments (key @ concat (map (\<lambda>m. ''['' @ m @ '']'') (n # ns))) = key # n # ns
            \<and> path_segments (key @ concat (map (\<lambda>m. ''.'' @ m) (n # ns))) = key # n # ns"
    if k: "key \<noteq> []" "list_all is_word key"
      and ns: "list_all (\<lambda>m. m \<noteq> [] \<and> list_all is_word m) ns"
  proof -
    from assms ns have all: "list_all (\<lambda>m. m \<noteq> [] \<and> list_all is_word m) (n # ns)"
      by simp
    from path_segments_of_indices[OF k all] path_segments_of_dots[OF k all]
    show ?thesis by simp
  qed
  have down: "extractJsonPath rt (JObj kvs) (key @ ''['' @ n @ '']'') = Inr (xs ! i)
            \<and> extractJsonPath rt (JObj kvs) (key @ ''.'' @ n) = Inr (xs ! i)"
    if k: "key \<noteq> []" "list_all is_word key" and m: "map_of kvs key = Some (JArr xs)"
      and i: "array_index n = Some i" "i < length xs"
  proof -
    from assms have one: "list_all (\<lambda>m. m \<noteq> [] \<and> list_all is_word m) [n]"
      by simp
    from path_segments_of_indices[OF k one] path_segments_of_dots[OF k one]
    have "path_segments (key @ ''['' @ n @ '']'') = [key, n]"
      and "path_segments (key @ ''.'' @ n) = [key, n]"
      by simp_all
    then show ?thesis
      using extract_key_then_index[OF _ m i] by blast
  qed
  from same norm segs down show ?thesis
    by (simp add: extractJsonPath_def)
qed

theorem bracket_index_is_dotted_segment_witness:
  "(\<forall>rt doc. extractJsonPath rt doc ''tags[0]'' = extractJsonPath rt doc ''tags.0'')
   \<and> path_segments ''tags[0]'' = [''tags'', ''0'']
   \<and> path_segments ''a[0][1]'' = [''a'', ''0'', ''1'']
   \<and> (\<forall>rt. extractJsonPath rt
               (JObj [(''tags'', JArr [JStr ''developer'', JStr ''typescript''])]) ''tags[0]''
             = Inr (JStr ''developer''))"
proof -
  have n: "''0'' \<noteq> []" "list_all is_word ''0''"
    by (simp_all add: char_class_defs)
  note inst = bracket_index_is_dotted_segment[OF n]
  have same: "extractJsonPath rt doc ''tags[0]'' = extractJsonPath rt doc ''tags.0''" for rt doc
    using inst[where p = "''tags''" and s = "[]" and rt = rt and doc = doc] by simp
  have tags: "path_segments ''tags[0]'' = [''tags'', ''0'']"
    using inst[where key = "''tags''" and ns = "[]"] by (simp add: char_class_defs)
  have two: "path_segments ''a[0][1]'' = [''a'', ''0'', ''1'']"
    using inst[where key = "''a''" and ns = "[''1'']"] by (simp add: char_class_defs)
  have idx: "array_index ''0'' = Some 0"
    by (simp add: array_index_def char_class_defs)
  have down: "extractJsonPath rt
               (JObj [(''tags'', JArr [JStr ''developer'', JStr ''typescript''])]) ''tags[0]''
             = Inr (JStr ''developer'')" for rt
    using inst[where key = "''tags''" and rt = rt
        and kvs = "[(''tags'', JArr [JStr ''developer'', JStr ''typescript''])]"
        and xs = "[JStr ''developer'', JStr ''typescript'']" and i = 0] idx
    by (simp add: char_class_defs)
  from same tags two down show ?thesis by blast
qed

section \<open>Header checks\<close>

lemma find_header_None_iff:
  "find_header hs h = None \<longleftrightarrow> list_all (\<lambda>kv. toLowerCase (fst kv) \<noteq> h) hs"
  by (induction hs) auto

lemma passed_header:
  "passed (evaluateHeaderCheck rt hname operator value response) =
     (let hv = find_header (headers response) (toLowerCase hname) in
      case operator of
        Exists \<Rightarrow> hv \<noteq> None
      | NotExists \<Rightarrow> hv = None
      | Equals \<Rightarrow> hv = value
      | NotEquals \<Rightarrow> hv \<noteq> value
      | Contains \<Rightarrow> (case hv of None \<Rightarrow> False | Some h \<Rightarrow> str_includes h (or_empty value))
      | NotContains \<Rightarrow> (case hv of None \<Rightarrow> True | Some h \<Rightarrow> \<not> str_includes h (or_empty value))
      | Matches \<Rightarrow>
          (case RegExp_new rt (or_empty value) of
             Inl err \<Rightarrow> False
           | Inr regex \<Rightarrow> (case hv of None \<Rightarrow> False | Some h \<Rightarrow> regex h))
      | NotMatches \<Rightarrow>
          (case RegExp_new rt (or_empty value) of
             Inl err \<Rightarrow> False
           | Inr regex \<Rightarrow> (case hv of None \<Rightarrow> True | Some h \<Rightarrow> \<not> regex h))
      | _ \<Rightarrow> False)"
  by (cases operator)
     (simp_all add: evaluateHeaderCheck_def passed_check_result Let_def split: sum.splits)

text \<open>
  Claim C10. When no header name of the response matches the name of the check, case
  ignored, a header check \<open>equals\<close> without an expected value passes (the value found and
  the value expected are both absent), and the same check with \<open>not_equals\<close> fails.
\<close>

theorem absent_header_equals_without_value:
  assumes "list_all (\<lambda>kv. toLowerCase (fst kv) \<noteq> toLowerCase hname) (headers response)"
  shows "passed (evaluateHeaderCheck rt hname Equals None response)
       \<and> \<not> passed (evaluateHeaderCheck rt hname NotEquals None response)"
  using assms by (simp add: passed_header Let_def find_header_None_iff[symmetric])

theorem absent_header_equals_without_value_witness:
  "passed (evaluateHeaderCheck ref_runtime ''X-Missing'' Equals None
      \<lparr> statusCode = 200, headers = [(''content-type'', ''text/html'')], body = [], responseTime = 0 \<rparr>)
   \<and> \<not> passed (evaluateHeaderCheck ref_runtime ''X-Missing'' NotEquals None
      \<lparr> statusCode = 200, headers = [(''content-type'', ''text/html'')], body = [], responseTime = 0 \<rparr>)"
proof -
  have "list_all (\<lambda>kv. toLowerCase (fst kv) \<noteq> toLowerCase ''X-Missing'')
          (headers \<lparr> statusCode = 200, headers = [(''content-type'', ''text/html'')], body = [], responseTime = 0 \<rparr>)"
    by (simp add: toLowerCase_def lower_char_def char_class_defs)
  from absent_header_equals_without_value[OF this] show ?thesis .
qed

text \<open>
  Claim C5 states that for every operator but \<open>exists\<close> and \<open>not_exists\<close> the verdict of a
  header check is the result of the value comparator on the header value found, or on an
  absent value. It is not: \<open>evaluateHeaderCheck\<close> has its own \<open>switch\<close>. For an absent
  header and \<open>equals\<close> without an expected value the check passes while the comparator
  compares the text \<open>undefined\<close> and answers false; for the header value \<open>5\<close> and
  \<open>greater_than 3\<close> the comparator answers true while the check, which has no such
  case, fails.
\<close>

theorem header_check_is_not_the_comparator:
  "passed (evaluateHeaderCheck ref_runtime ''X-Missing'' Equals None
      \<lparr> statusCode = 200, headers = [(''x-count'', ''5'')], body = [], responseTime = 0 \<rparr>)
   \<and> compareValues ref_runtime JUndefined Equals None = Inr False
   \<and> \<not> passed (evaluateHeaderCheck ref_runtime ''X-Count'' GreaterThan (Some ''3'')
      \<lparr> statusCode = 200, headers = [(''x-count'', ''5'')], body = [], responseTime = 0 \<rparr>)
   \<and> find_header [(''x-count'', ''5'')] (toLowerCase ''X-Count'') = Some ''5''
   \<and> compareValues ref_runtime (JStr ''5'') GreaterThan (Some ''3'') = Inr True"
  by code_simp

text \<open>
  Claim C5, amended. For \<open>equals\<close>, \<open>not_equals\<close>, \<open>contains\<close>, \<open>not_contains\<close>, \<open>matches\<close> and
  \<open>not_matches\<close> on a header that is found, the verdict is the result of the value
  comparator on the found value, whenever the comparator returns one (it raises when the
  pattern does not compile). When no header matches, the check follows its own rules:
  \<open>equals\<close> passes exactly when no expected value is given, \<open>not_equals\<close> exactly when
  one is given, \<open>contains\<close> and \<open>matches\<close> fail, \<open>not_contains\<close> passes and \<open>not_matches\<close>
  passes when its pattern compiles. \<open>greater_than\<close> and \<open>less_than\<close> are not operators
  of a header check: it fails.
\<close>

theorem header_check_semantics:
  "(find_header (headers response) (toLowerCase hname) = Some h
      \<and> operator \<in> {Equals, NotEquals, Contains, NotContains, Matches, NotMatches}
      \<and> compareValues rt (JStr h) operator value = Inr b
     \<longrightarrow> passed (evaluateHeaderCheck rt hname operator value response) = b)
   \<and> (find_header (headers response) (toLowerCase hname) = None
     \<longrightarrow> passed (evaluateHeaderCheck rt hname Equals value response) = (value = None)
       \<and> passed (evaluateHeaderCheck rt hname NotEquals value response) = (value \<noteq> None)
       \<and> \<not> passed (evaluateHeaderCheck rt hname Contains value response)
       \<and> passed (evaluateHeaderCheck rt hname NotContains value response)
       \<and> \<not> passed (evaluateHeaderCheck rt hname Matches value response)
       \<and> passed (evaluateHeaderCheck rt hname NotMatches value response)
           = (\<not> isl (RegExp_new rt (or_empty value))))
   \<and> \<not> passed (evaluateHeaderCheck rt hname GreaterThan value response)
   \<and> \<not> passed (evaluateHeaderCheck rt hname LessThan value response)"
proof -
  have found: "passed (evaluateHeaderCheck rt hname operator value response) = b"
    if "find_header (headers response) (toLowerCase hname) = Some h"
      and "operator \<in> {Equals, NotEquals, Contains, NotContains, Matches, NotMatches}"
      and "compareValues rt (JStr h) operator value = Inr b"
    using that
    by (auto simp: passed_header compareValues_def with_text_def Let_def
             split: sum.splits)
  have absent: "passed (evaluateHeaderCheck rt hname Equals value response) = (value = None)
       \<and> passed (evaluateHeaderCheck rt hname NotEquals value response) = (value \<noteq> None)
       \<and> \<not> passed (evaluateHeaderCheck rt hname Contains value response)
       \<and> passed (evaluateHeaderCheck rt hname NotContains value response)
       \<and> \<not> passed (evaluateHeaderCheck rt hname Matches value response)
       \<and> passed (evaluateHeaderCheck rt hname NotMatches value response)
           = (\<not> isl (RegExp_new rt (or_empty value)))"
    if "find_header (headers response) (toLowerCase hname) = None"
    using that by (cases "value") (auto simp: passed_header Let_def split: sum.splits)
  have unsupported: "\<not> passed (evaluateHeaderCheck rt hname GreaterThan value response)"
    "\<not> passed (evaluateHeaderCheck rt hname LessThan value response)"
    by (simp_all add: passed_header Let_def)
  from found absent unsupported show ?thesis by blast
qed

theorem header_check_semantics_witness:
  "passed (evaluateHeaderCheck ref_runtime ''Content-Type'' Contains (Some ''html'')
      \<lparr> statusCode = 200, headers = [(''content-type'', ''text/html'')], body = [], responseTime = 0 \<rparr>)
   \<and> \<not> passed (evaluateHeaderCheck ref_runtime ''X-Missing'' Contains (Some ''html'')
      \<lparr> statusCode = 200, headers = [(''content-type'', ''text/html'')], body = [], responseTime = 0 \<rparr>)"
proof -
  let ?r = "\<lparr> statusCode = 200, headers = [(''content-type'', ''text/html'')], body = [], responseTime = 0 \<rparr>"
  have f: "find_header (headers ?r) (toLowerCase ''Content-Type'') = Some ''text/html''"
    by code_simp
  have c: "compareValues ref_runtime (JStr ''text/html'') Contains (Some ''html'') = Inr True"
    by code_simp
  have a: "find_header (headers ?r) (toLowerCase ''X-Missing'') = None"
    by code_simp
  from header_check_semantics[of ?r "''Content-Type''" "''text/html''" Contains ref_runtime "Some ''html''" True] f c
  have 1: "passed (evaluateHeaderCheck ref_runtime ''Content-Type'' Contains (Some ''html'') ?r)"
    by simp
  from header_check_semantics[of ?r "''X-Missing''" h Contains ref_runtime "Some ''html''" b] a
  have 2: "\<not> passed (evaluateHeaderCheck ref_runtime ''X-Missing'' Contains (Some ''html'') ?r)"
    by simp
  from 1 2 show ?thesis by simp
qed

section \<open>The effective check list of a probe\<close>

lemma ToString_of_non_object: "\<not> typeof_object v \<Longrightarrow> \<exists>s. ToString rt v = Inr s"
  by (cases v) auto

lemma stringified_is_no_object: "\<not> typeof_object (stringified rt v)"
  by (simp add: stringified_def split: option.splits)

lemma jsonpath_result_values:
  "\<not> typeof_object (actualValue (jsonpath_result rt path operator value attempt actual))
   \<and> \<not> typeof_object (expectedValue (jsonpath_result rt path operator value attempt actual))"
  by (simp add: jsonpath_result_def check_result_def stringified_is_no_object opt_value_def
        split: option.splits)

lemma evaluateJsonPathCheck_values:
  "\<not> typeof_object (actualValue (evaluateJsonPathCheck rt path operator value element_opt r))
   \<and> \<not> typeof_object (expectedValue (evaluateJsonPathCheck rt path operator value element_opt r))"
  by (auto simp: evaluateJsonPathCheck_def compare_single_def Let_def jsonpath_result_values
        check_result_def stringified_is_no_object opt_value_def
        split: sum.splits option.splits Element.splits)

lemma evaluateCheck_values:
  "\<not> typeof_object (actualValue (evaluateCheck rt c r))
   \<and> \<not> typeof_object (expectedValue (evaluateCheck rt c r))"
proof (cases c)
  case (JsonPathCheck path operator v element_opt)
  then show ?thesis using evaluateJsonPathCheck_values by simp
qed (simp_all add: evaluateStatusCodeCheck_def evaluateHeaderCheck_def evaluateBodyCheck_def
       evaluateResponseTimeCheck_def check_result_def opt_value_def Let_def
       split: option.splits)

lemma failure_text_returns: "\<exists>t. failure_text rt (evaluateCheck rt c r) = Inr t"
proof -
  from evaluateCheck_values[of rt c r]
  obtain e a where "ToString rt (expectedValue (evaluateCheck rt c r)) = Inr e"
    and "ToString rt (actualValue (evaluateCheck rt c r)) = Inr a"
    using ToString_of_non_object by blast
  then show ?thesis by (simp add: failure_text_def)
qed

lemma collect_returns: "list_all (\<lambda>x. \<exists>y. x = Inr y) xs \<Longrightarrow> \<exists>ys. collect xs = Inr ys"
  by (induction xs) auto

lemma failure_texts_return:
  "\<exists>ts. collect (map (failure_text rt) (filter P (evaluateChecks rt cs r))) = Inr ts"
  by (rule collect_returns)
     (auto simp: list_all_iff evaluateChecks_def failure_text_returns)

lemma checkUrl_on_response:
  "checkResults (checkUrl rt config urlConfig (Inr (sc, hs, b)) elapsed)
     = Some (evaluateChecks rt (effectiveChecks config urlConfig)
               \<lparr> statusCode = sc, headers = hs, body = b, responseTime = elapsed \<rparr>)
   \<and> success (checkUrl rt config urlConfig (Inr (sc, hs, b)) elapsed)
     = list_all passed (evaluateChecks rt (effectiveChecks config urlConfig)
               \<lparr> statusCode = sc, headers = hs, body = b, responseTime = elapsed \<rparr>)
   \<and> result_body (checkUrl rt config urlConfig (Inr (sc, hs, b)) elapsed)
     = Some (if length b > 1024 then take 1024 b @ ''...'' else b)"
proof -
  let ?results = "evaluateChecks rt (effectiveChecks config urlConfig)
               \<lparr> statusCode = sc, headers = hs, body = b, responseTime = elapsed \<rparr>"
  obtain ts where "collect (map (failure_text rt) (filter (\<lambda>r. \<not> passed r) ?results)) = Inr ts"
    using failure_texts_return by blast
  then show ?thesis
    by (simp add: checkUrl_def Let_def)
qed

lemma render_200: "Number_toString (Fin 200 0) = ''200''"
  by code_simp

text \<open>
  Claim C1 states that the checks a probe supplies are used verbatim, an empty list
  included, for which the probe succeeds vacuously. The guard of \<open>checkUrl\<close> is
  \<open>urlConfig.checks && urlConfig.checks.length > 0\<close>: a supplied empty list takes the
  \<open>else\<close> branch like a missing one. With no success codes configured, a 404 response
  then fails the synthesized check.
\<close>

theorem empty_check_list_falls_back_to_default:
  "\<not> success (checkUrl ref_runtime \<lparr> globalSuccessCodes = None \<rparr>
        \<lparr> url = ''http://example.com/'', name = None, successCodes = None, checks = Some [] \<rparr>
        (Inr (404, [], ''Not Found'')) 12)
   \<and> checkResults (checkUrl ref_runtime \<lparr> globalSuccessCodes = None \<rparr>
        \<lparr> url = ''http://example.com/'', name = None, successCodes = None, checks = Some [] \<rparr>
        (Inr (404, [], ''Not Found'')) 12)
     = Some [\<lparr> type = ''status_code'', description = ''Status code equals 200'',
               passed = False, error = None, actualValue = JNum (Fin 404 0),
               expectedValue = JStr ''200'' \<rparr>]"
  by code_simp

text \<open>
  Claim C1, amended. When the transport succeeds, the checks evaluated are those the probe
  supplies if it supplies at least one; otherwise (no list, or an empty one) they are one
  status-code check \<open>equals\<close> whose value is the success codes of the probe, or else the
  global ones, joined by \<open>|\<close>, or else \<open>200\<close>. The overall success flag is the conjunction
  of the \<open>passed\<close> flags of the check results.
\<close>

theorem effective_checks_and_overall_success:
  "checkResults (checkUrl rt config urlConfig (Inr (sc, hs, b)) elapsed)
     = Some (evaluateChecks rt
               (case checks urlConfig of
                  Some (c # cs) \<Rightarrow> c # cs
                | _ \<Rightarrow>
                  [StatusCodeCheck Equals
                     (join ''|'' (map (\<lambda>c. Number_toString (Fin c 0))
                        (case successCodes urlConfig of
                           Some cs \<Rightarrow> cs
                         | None \<Rightarrow> (case globalSuccessCodes config of
                                      Some gs \<Rightarrow> gs
                                    | None \<Rightarrow> [200]))))])
               \<lparr> statusCode = sc, headers = hs, body = b, responseTime = elapsed \<rparr>)
   \<and> (case checkResults (checkUrl rt config urlConfig (Inr (sc, hs, b)) elapsed) of
          Some results \<Rightarrow>
            success (checkUrl rt config urlConfig (Inr (sc, hs, b)) elapsed)
              = list_all passed results
        | None \<Rightarrow> False)
   \<and> defaultStatusCodeCheck config (urlConfig \<lparr> successCodes := None \<rparr>)
        = (case globalSuccessCodes config of
             None \<Rightarrow> StatusCodeCheck Equals ''200''
           | Some gs \<Rightarrow> StatusCodeCheck Equals (join ''|'' (map (\<lambda>c. Number_toString (Fin c 0)) gs)))"
proof -
  have eff: "effectiveChecks config urlConfig =
       (case checks urlConfig of
          Some (c # cs) \<Rightarrow> c # cs
        | _ \<Rightarrow>
          [StatusCodeCheck Equals
             (join ''|'' (map (\<lambda>c. Number_toString (Fin c 0))
                (case successCodes urlConfig of
                   Some cs \<Rightarrow> cs
                 | None \<Rightarrow> (case globalSuccessCodes config of
                              Some gs \<Rightarrow> gs
                            | None \<Rightarrow> [200]))))])"
    by (simp add: effectiveChecks_def defaultStatusCodeCheck_def split: option.splits list.splits)
  have res: "checkResults (checkUrl rt config urlConfig (Inr (sc, hs, b)) elapsed)
       = Some (evaluateChecks rt (effectiveChecks config urlConfig)
                 \<lparr> statusCode = sc, headers = hs, body = b, responseTime = elapsed \<rparr>)"
    using checkUrl_on_response by blast
  have suc: "success (checkUrl rt config urlConfig (Inr (sc, hs, b)) elapsed)
       = list_all passed (evaluateChecks rt (effectiveChecks config urlConfig)
                 \<lparr> statusCode = sc, headers = hs, body = b, responseTime = elapsed \<rparr>)"
    using checkUrl_on_response by blast
  have dflt: "defaultStatusCodeCheck config (urlConfig \<lparr> successCodes := None \<rparr>)
        = (case globalSuccessCodes config of
             None \<Rightarrow> StatusCodeCheck Equals ''200''
           | Some gs \<Rightarrow> StatusCodeCheck Equals (join ''|'' (map (\<lambda>c. Number_toString (Fin c 0)) gs)))"
    by (simp add: defaultStatusCodeCheck_def render_200 split: option.splits)
  from res suc dflt show ?thesis unfolding eff by simp
qed

theorem effective_checks_and_overall_success_witness:
  "checkResults (checkUrl ref_runtime \<lparr> globalSuccessCodes = Some [200, 201] \<rparr>
        \<lparr> url = ''http://example.com/'', name = None, successCodes = None, checks = None \<rparr>
        (Inr (201, [], ''Created'')) 12)
     = Some [\<lparr> type = ''status_code'', description = ''Status code equals 200|201'',
               passed = True, error = None, actualValue = JNum (Fin 201 0),
               expectedValue = JStr ''200|201'' \<rparr>]
   \<and> success (checkUrl ref_runtime \<lparr> globalSuccessCodes = Some [200, 201] \<rparr>
        \<lparr> url = ''http://example.com/'', name = None, successCodes = None, checks = None \<rparr>
        (Inr (201, [], ''Created'')) 12)"
proof -
  let ?u = "\<lparr> url = ''http://example.com/'', name = None, successCodes = None, checks = None \<rparr>"
  let ?c = "\<lparr> globalSuccessCodes = Some [200, 201] \<rparr>"
  have ev: "evaluateChecks ref_runtime [StatusCodeCheck Equals ''200|201'']
              \<lparr> statusCode = 201, headers = [], body = ''Created'', responseTime = 12 \<rparr>
        = [\<lparr> type = ''status_code'', description = ''Status code equals 200|201'',
               passed = True, error = None, actualValue = JNum (Fin 201 0),
               expectedValue = JStr ''200|201'' \<rparr>]"
    by code_simp
  have j: "Number_toString (Fin 200 0) = ''200''" "Number_toString (Fin 201 0) = ''201''"
    by code_simp+
  from effective_checks_and_overall_success[of ref_runtime ?c ?u 201 "[]" "''Created''" 12]
  show ?thesis by (auto simp: j ev)
qed

section \<open>Numeric comparison in the value comparator\<close>






section \<open>JSON-path checks on a body that is not JSON\<close>

lemma jsonpath_parse_failure:
  assumes "JSON_parse rt (body response) = Inl msg"
  shows "evaluateJsonPathCheck rt path operator value element_opt response
           = jsonpath_result rt path operator value (Inl msg) JNull"
  using assms by (simp add: evaluateJsonPathCheck_def)

lemma stringified_null: "stringified rt JNull = JStr ''null''"
  by (simp add: stringified_def)

text \<open>
  Claim C7. A JSON-path check on a body that \<open>JSON.parse\<close> rejects is a failed check
  whose error is the message of the parse failure. The claim has the actual value
  reported as null. \<open>actualValue\<close> is null when the exception is caught, but the final
  \<open>return\<close> renders every value whose \<open>typeof\<close> is \<open>object\<close> with \<open>JSON.stringify\<close>, and
  \<open>typeof null\<close> is \<open>object\<close>: the result holds the four-character text \<open>null\<close>, not
  null. The theorem states what the code returns.
\<close>

theorem unparsable_body_fails_with_error:
  assumes "JSON_parse rt (body response) = Inl msg" and "msg \<noteq> []"
  shows "\<not> passed (evaluateJsonPathCheck rt path operator value element_opt response)
       \<and> error (evaluateJsonPathCheck rt path operator value element_opt response) = Some msg
       \<and> actualValue (evaluateJsonPathCheck rt path operator value element_opt response)
           = JStr ''null''"
  using assms
  by (simp add: jsonpath_parse_failure jsonpath_result_def passed_check_result
        error_check_result actualValue_check_result stringified_null)

theorem unparsable_body_fails_with_error_witness:
  "\<not> passed (evaluateJsonPathCheck ref_runtime ''user.name'' Equals (Some ''John Doe'') None
        \<lparr> statusCode = 200, headers = [], body = ''<html>'', responseTime = 5 \<rparr>)
   \<and> error (evaluateJsonPathCheck ref_runtime ''user.name'' Equals (Some ''John Doe'') None
        \<lparr> statusCode = 200, headers = [], body = ''<html>'', responseTime = 5 \<rparr>)
       = Some ''Unexpected token or end of JSON input''
   \<and> actualValue (evaluateJsonPathCheck ref_runtime ''user.name'' Equals (Some ''John Doe'') None
        \<lparr> statusCode = 200, headers = [], body = ''<html>'', responseTime = 5 \<rparr>)
       = JStr ''null''
   \<and> JStr ''null'' \<noteq> JNull"
proof -
  let ?r = "\<lparr> statusCode = 200, headers = [], body = ''<html>'', responseTime = 5 \<rparr>"
  have p: "JSON_parse ref_runtime (body ?r) = Inl ''Unexpected token or end of JSON input''"
    by code_simp
  have n: "''Unexpected token or end of JSON input'' \<noteq> []" by simp
  from unparsable_body_fails_with_error[OF p n, of "''user.name''" Equals "Some ''John Doe''" None]
  show ?thesis by simp
qed

section \<open>Failures while a check is evaluated\<close>

lemma regex_test_fails:
  "RegExp_new rt pattern = Inl msg \<Longrightarrow> regex_test rt pattern subject = Inl msg"
  by (simp add: regex_test_def)

lemma negate_Inl: "negate (Inl msg) = Inl msg"
  by (simp add: negate_def)

lemma compareValues_bad_pattern:
  assumes "RegExp_new rt (or_empty value) = Inl msg" and "operator \<in> {Matches, NotMatches}"
  shows "compareValues rt actual operator value = Inl msg"
  using assms by (auto simp: compareValues_def)

lemma compare_each_bad_pattern:
  assumes "RegExp_new rt (or_empty value) = Inl msg" and "operator \<in> {Matches, NotMatches}"
    and "items \<noteq> []"
  shows "compare_each rt items operator value = Inl msg"
  using assms by (cases items) (simp_all add: compareValues_bad_pattern)

lemma compare_single_bad_pattern:
  assumes "RegExp_new rt (or_empty value) = Inl msg" and "operator \<in> {Matches, NotMatches}"
    and "msg \<noteq> []"
  shows "\<not> passed (compare_single rt path operator value selected)
       \<and> error (compare_single rt path operator value selected) = Some msg"
  using assms
  by (simp add: compare_single_def Let_def compareValues_bad_pattern jsonpath_result_def
        passed_check_result error_check_result)

lemma jsonpath_bad_pattern:
  assumes parsed: "JSON_parse rt (body response) = Inr doc"
    and got: "extractJsonPath rt doc path = Inr extracted"
    and pat: "RegExp_new rt (or_empty value) = Inl msg" "operator \<in> {Matches, NotMatches}"
      "msg \<noteq> []"
    and reached: "\<not> (array_items rt extracted = Some [] \<and> element_opt \<in> {Some Any, Some All})"
  shows "\<not> passed (evaluateJsonPathCheck rt path operator value element_opt response)
       \<and> error (evaluateJsonPathCheck rt path operator value element_opt response) = Some msg"
proof (cases "array_items rt extracted")
  case None
  with parsed got compare_single_bad_pattern[OF pat] show ?thesis
    by (simp add: evaluateJsonPathCheck_def)
next
  case (Some items)
  show ?thesis
  proof (cases "element_opt \<in> {Some Any, Some All}")
    case True
    with reached Some have "items \<noteq> []" by auto
    from compare_each_bad_pattern[OF pat(1,2) this] True Some parsed got pat(3)
    show ?thesis
      by (auto simp: evaluateJsonPathCheck_def jsonpath_result_def passed_check_result
            error_check_result)
  next
    case False
    with Some parsed got compare_single_bad_pattern[OF pat] show ?thesis
      by (auto simp: evaluateJsonPathCheck_def split: option.splits Element.splits)
  qed
qed

lemma evaluateChecks_append:
  "evaluateChecks rt (before @ check # after) response
     = evaluateChecks rt before response @ evaluateCheck rt check response
         # evaluateChecks rt after response"
  by (simp add: evaluateChecks_def)

lemma status_equals_by_segment:
  "passed (evaluateStatusCodeCheck rt Equals literal response)
     = list_ex (\<lambda>seg. parseInt (trim seg) = Some (statusCode response))
         (split_on CHR ''|'' literal)"
  "passed (evaluateStatusCodeCheck rt NotEquals literal response)
     = (\<not> list_ex (\<lambda>seg. parseInt (trim seg) = Some (statusCode response))
            (split_on CHR ''|'' literal))"
  by (auto simp: evaluateStatusCodeCheck_def passed_check_result list_ex_iff image_iff
        intro: sym)

lemma split_on_not_empty: "split_on d s \<noteq> []"
  by (induction s) (auto split: list.splits)

lemma split_on_append:
  "split_on d (a @ d # b) = split_on d a @ split_on d b"
proof (induction a)
  case Nil
  show ?case by simp
next
  case (Cons c cs)
  then show ?case
    using split_on_not_empty[of d cs] by (cases "split_on d cs") auto
qed

lemma status_equals_of_alternatives:
  "passed (evaluateStatusCodeCheck rt Equals (a @ ''|'' @ b) response)
     = (passed (evaluateStatusCodeCheck rt Equals a response)
        \<or> passed (evaluateStatusCodeCheck rt Equals b response))"
  using split_on_append[of "CHR ''|''" a b]
  by (auto simp: status_equals_by_segment list_ex_iff)

text \<open>
  Claim C6 states that a check whose evaluation meets a malformed pattern, a body that is
  not JSON or an invalid numeric literal is reported as failed with its error field set.
  An invalid numeric literal raises nothing: \<open>parseInt\<close> returns NaN for it, which is
  never the status code. The check \<open>equals abc\<close> fails without an error, and
  \<open>not_equals abc\<close> passes.
\<close>

theorem invalid_number_is_not_an_error:
  "\<not> passed (evaluateCheck ref_runtime (StatusCodeCheck Equals ''abc'')
        \<lparr> statusCode = 200, headers = [], body = [], responseTime = 0 \<rparr>)
   \<and> error (evaluateCheck ref_runtime (StatusCodeCheck Equals ''abc'')
        \<lparr> statusCode = 200, headers = [], body = [], responseTime = 0 \<rparr>) = None
   \<and> passed (evaluateCheck ref_runtime (StatusCodeCheck NotEquals ''abc'')
        \<lparr> statusCode = 200, headers = [], body = [], responseTime = 0 \<rparr>)
   \<and> error (evaluateCheck ref_runtime (StatusCodeCheck NotEquals ''abc'')
        \<lparr> statusCode = 200, headers = [], body = [], responseTime = 0 \<rparr>) = None"
  by code_simp

text \<open>
  Claim C6, amended. A status-code, header or body check with \<open>matches\<close> or
  \<open>not_matches\<close> whose pattern does not compile is reported as failed, with the message
  of the exception in the error field. So is a JSON-path check with such a pattern, when
  the body parses, the extraction returns a value, and that value is not an empty array
  examined with \<open>any\<close> or \<open>all\<close> (the comparator is then never called). So is a JSON-path
  check on a body that is not JSON. The results of a batch are the results of its checks
  one by one, in order: the checks before and after are evaluated as they are alone. A
  status-code check \<open>equals\<close> or \<open>not_equals\<close> never sets an error: \<open>equals\<close> passes
  exactly when one segment of the literal between \<open>|\<close> is read by \<open>parseInt\<close> as the status
  code, so a literal none of whose segments is a number matches no code, fails \<open>equals\<close>
  and passes \<open>not_equals\<close>; and \<open>equals\<close> on two literals joined by \<open>|\<close> passes exactly when
  it passes on one of them, so an invalid segment leaves the verdict to the others.
\<close>

theorem evaluation_failures_are_contained:
  "(RegExp_new rt (or_empty value) = Inl msg \<and> msg \<noteq> [] \<and> operator \<in> {Matches, NotMatches}
      \<longrightarrow> (\<not> passed (evaluateCheck rt (StatusCodeCheck operator (or_empty value)) response)
           \<and> error (evaluateCheck rt (StatusCodeCheck operator (or_empty value)) response) = Some msg)
        \<and> (\<not> passed (evaluateCheck rt (HeaderCheck hname operator value) response)
           \<and> error (evaluateCheck rt (HeaderCheck hname operator value) response) = Some msg)
        \<and> (\<not> passed (evaluateCheck rt (BodyCheck operator value) response)
           \<and> error (evaluateCheck rt (BodyCheck operator value) response) = Some msg)
        \<and> (JSON_parse rt (body response) = Inr doc
             \<and> extractJsonPath rt doc path = Inr extracted
             \<and> \<not> (array_items rt extracted = Some [] \<and> element_opt \<in> {Some Any, Some All})
            \<longrightarrow> \<not> passed (evaluateCheck rt (JsonPathCheck path operator value element_opt) response)
              \<and> error (evaluateCheck rt (JsonPathCheck path operator value element_opt) response)
                  = Some msg))
   \<and> (JSON_parse rt (body response) = Inl msg \<and> msg \<noteq> []
      \<longrightarrow> \<not> passed (evaluateCheck rt (JsonPathCheck path operator value element_opt) response)
        \<and> error (evaluateCheck rt (JsonPathCheck path operator value element_opt) response)
            = Some msg)
   \<and> evaluateChecks rt (before @ check # after) response
        = evaluateChecks rt before response @ evaluateCheck rt check response
            # evaluateChecks rt after response
   \<and> length (evaluateChecks rt cs response) = length cs
   \<and> error (evaluateCheck rt (StatusCodeCheck Equals literal) response) = None
   \<and> error (evaluateCheck rt (StatusCodeCheck NotEquals literal) response) = None
   \<and> passed (evaluateCheck rt (StatusCodeCheck Equals literal) response)
        = list_ex (\<lambda>seg. parseInt (trim seg) = Some (statusCode response))
            (split_on CHR ''|'' literal)
   \<and> passed (evaluateCheck rt (StatusCodeCheck NotEquals literal) response)
        = (\<not> list_ex (\<lambda>seg. parseInt (trim seg) = Some (statusCode response))
               (split_on CHR ''|'' literal))
   \<and> (list_all (\<lambda>seg. parseInt (trim seg) = None) (split_on CHR ''|'' literal)
      \<longrightarrow> \<not> passed (evaluateCheck rt (StatusCodeCheck Equals literal) response)
        \<and> passed (evaluateCheck rt (StatusCodeCheck NotEquals literal) response))
   \<and> passed (evaluateCheck rt (StatusCodeCheck Equals (left @ ''|'' @ right)) response)
        = (passed (evaluateCheck rt (StatusCodeCheck Equals left) response)
           \<or> passed (evaluateCheck rt (StatusCodeCheck Equals right) response))"
proof -
  have regex: "(\<not> passed (evaluateCheck rt (StatusCodeCheck operator (or_empty value)) response)
           \<and> error (evaluateCheck rt (StatusCodeCheck operator (or_empty value)) response) = Some msg)
        \<and> (\<not> passed (evaluateCheck rt (HeaderCheck hname operator value) response)
           \<and> error (evaluateCheck rt (HeaderCheck hname operator value) response) = Some msg)
        \<and> (\<not> passed (evaluateCheck rt (BodyCheck operator value) response)
           \<and> error (evaluateCheck rt (BodyCheck operator value) response) = Some msg)"
    if "RegExp_new rt (or_empty value) = Inl msg" "msg \<noteq> []" "operator \<in> {Matches, NotMatches}"
    using that
    by (auto simp: evaluateStatusCodeCheck_def evaluateHeaderCheck_def evaluateBodyCheck_def
          Let_def passed_check_result error_check_result regex_test_fails negate_Inl)
  have jp: "\<not> passed (evaluateCheck rt (JsonPathCheck path operator value element_opt) response)
              \<and> error (evaluateCheck rt (JsonPathCheck path operator value element_opt) response)
                  = Some msg"
    if "RegExp_new rt (or_empty value) = Inl msg" "msg \<noteq> []" "operator \<in> {Matches, NotMatches}"
       "JSON_parse rt (body response) = Inr doc" "extractJsonPath rt doc path = Inr extracted"
       "\<not> (array_items rt extracted = Some [] \<and> element_opt \<in> {Some Any, Some All})"
    using jsonpath_bad_pattern[OF that(4) that(5) that(1) that(3) that(2) that(6)] by simp
  have parse: "\<not> passed (evaluateCheck rt (JsonPathCheck path operator value element_opt) response)
        \<and> error (evaluateCheck rt (JsonPathCheck path operator value element_opt) response)
            = Some msg"
    if "JSON_parse rt (body response) = Inl msg" "msg \<noteq> []"
    using that
    by (simp add: evaluateJsonPathCheck_def jsonpath_result_def passed_check_result
          error_check_result)
  have len: "length (evaluateChecks rt cs response) = length cs"
    by (simp add: evaluateChecks_def)
  have num: "error (evaluateCheck rt (StatusCodeCheck Equals literal) response) = None"
    "error (evaluateCheck rt (StatusCodeCheck NotEquals literal) response) = None"
    by (simp_all add: evaluateStatusCodeCheck_def error_check_result)
  have seg: "passed (evaluateCheck rt (StatusCodeCheck Equals literal) response)
        = list_ex (\<lambda>seg. parseInt (trim seg) = Some (statusCode response))
            (split_on CHR ''|'' literal)"
    "passed (evaluateCheck rt (StatusCodeCheck NotEquals literal) response)
        = (\<not> list_ex (\<lambda>seg. parseInt (trim seg) = Some (statusCode response))
               (split_on CHR ''|'' literal))"
    by (simp_all add: status_equals_by_segment)
  have none: "\<not> list_ex (\<lambda>seg. parseInt (trim seg) = Some (statusCode response))
               (split_on CHR ''|'' literal)"
    if "list_all (\<lambda>seg. parseInt (trim seg) = None) (split_on CHR ''|'' literal)"
    using that by (auto simp: list_all_iff list_ex_iff)
  have alt: "passed (evaluateCheck rt (StatusCodeCheck Equals (left @ ''|'' @ right)) response)
        = (passed (evaluateCheck rt (StatusCodeCheck Equals left) response)
           \<or> passed (evaluateCheck rt (StatusCodeCheck Equals right) response))"
    using status_equals_of_alternatives[of rt left right response] by simp
  from regex jp parse len num seg none evaluateChecks_append[of rt before check after response]
  have "?thesis = (passed (evaluateCheck rt (StatusCodeCheck Equals (left @ ''|'' @ right)) response)
        = (passed (evaluateCheck rt (StatusCodeCheck Equals left) response)
           \<or> passed (evaluateCheck rt (StatusCodeCheck Equals right) response)))"
    by blast
  with alt show ?thesis by blast
qed

theorem evaluation_failures_are_contained_witness:
  \<open>\<not> passed (evaluateCheck ref_runtime (BodyCheck Matches (Some ''(''))
        \<lparr> statusCode = 200, headers = [], body = ''{"tags":["a"]}'', responseTime = 0 \<rparr>)
   \<and> error (evaluateCheck ref_runtime (BodyCheck Matches (Some ''(''))
        \<lparr> statusCode = 200, headers = [], body = ''{"tags":["a"]}'', responseTime = 0 \<rparr>)
       = Some ''Invalid regular expression: /(/''
   \<and> \<not> passed (evaluateCheck ref_runtime (JsonPathCheck ''tags'' Matches (Some ''('') (Some Any))
        \<lparr> statusCode = 200, headers = [], body = ''{"tags":["a"]}'', responseTime = 0 \<rparr>)
   \<and> error (evaluateCheck ref_runtime (JsonPathCheck ''tags'' Matches (Some ''('') (Some Any))
        \<lparr> statusCode = 200, headers = [], body = ''{"tags":["a"]}'', responseTime = 0 \<rparr>)
       = Some ''Invalid regular expression: /(/''
   \<and> map passed (evaluateChecks ref_runtime
          [StatusCodeCheck Equals ''200'', BodyCheck Matches (Some ''(''),
           BodyCheck Contains (Some ''tags'')]
          \<lparr> statusCode = 200, headers = [], body = ''{"tags":["a"]}'', responseTime = 0 \<rparr>)
       = [True, False, True]
   \<and> \<not> passed (evaluateCheck ref_runtime (StatusCodeCheck Equals ''abc|x2'')
        \<lparr> statusCode = 200, headers = [], body = ''{"tags":["a"]}'', responseTime = 0 \<rparr>)
   \<and> passed (evaluateCheck ref_runtime (StatusCodeCheck NotEquals ''abc|x2'')
        \<lparr> statusCode = 200, headers = [], body = ''{"tags":["a"]}'', responseTime = 0 \<rparr>)
   \<and> passed (evaluateCheck ref_runtime (StatusCodeCheck Equals ''abc|200'')
        \<lparr> statusCode = 200, headers = [], body = ''{"tags":["a"]}'', responseTime = 0 \<rparr>)
   \<and> \<not> passed (evaluateCheck ref_runtime (JsonPathCheck ''tags'' Equals (Some ''a'') None)
        \<lparr> statusCode = 200, headers = [], body = ''<html>'', responseTime = 0 \<rparr>)
   \<and> error (evaluateCheck ref_runtime (JsonPathCheck ''tags'' Equals (Some ''a'') None)
        \<lparr> statusCode = 200, headers = [], body = ''<html>'', responseTime = 0 \<rparr>)
       = Some ''Unexpected token or end of JSON input''\<close>
proof -
  let ?r = \<open>\<lparr> statusCode = 200, headers = [], body = ''{"tags":["a"]}'', responseTime = 0 \<rparr>\<close>
  let ?doc = "JObj [(''tags'', JArr [JStr ''a''])]"
  have pat: "RegExp_new ref_runtime (or_empty (Some ''('')) = Inl ''Invalid regular expression: /(/''"
    by (simp add: ref_runtime_def literal_RegExp_def syntax_char_def or_empty_def)
  have doc: "JSON_parse ref_runtime (body ?r) = Inr ?doc" by code_simp
  have got: "extractJsonPath ref_runtime ?doc ''tags'' = Inr (JArr [JStr ''a''])" by code_simp
  have reached: "\<not> (array_items ref_runtime (JArr [JStr ''a'']) = Some []
                     \<and> Some Any \<in> {Some Any, Some All})"
    by simp
  have others: "passed (evaluateCheck ref_runtime (StatusCodeCheck Equals ''200'') ?r)"
    "passed (evaluateCheck ref_runtime (BodyCheck Contains (Some ''tags'')) ?r)"
    by code_simp+
  have invalid: "list_all (\<lambda>seg. parseInt (trim seg) = None) (split_on CHR ''|'' ''abc|x2'')"
    by code_simp
  note inst = evaluation_failures_are_contained[where rt = ref_runtime and msg = "''Invalid regular expression: /(/''"
      and operator = Matches and response = ?r and doc = ?doc and path = "''tags''"
      and extracted = "JArr [JStr ''a'']" and element_opt = "Some Any"
      and before = "[StatusCodeCheck Equals ''200'']"
      and check = "BodyCheck Matches (Some ''('')"
      and after = "[BodyCheck Contains (Some ''tags'')]" and literal = "''abc|x2''"]
  note at = inst[of "Some ''(''"]
  from at pat have failed: "\<not> passed (evaluateCheck ref_runtime (BodyCheck Matches (Some ''('')) ?r)"
    "error (evaluateCheck ref_runtime (BodyCheck Matches (Some ''('')) ?r)
       = Some ''Invalid regular expression: /(/''"
    by simp_all
  from at pat doc got reached
  have jp: "\<not> passed (evaluateCheck ref_runtime
                (JsonPathCheck ''tags'' Matches (Some ''('') (Some Any)) ?r)
      \<and> error (evaluateCheck ref_runtime
                (JsonPathCheck ''tags'' Matches (Some ''('') (Some Any)) ?r)
          = Some ''Invalid regular expression: /(/''"
    by blast
  from at have "evaluateChecks ref_runtime
        ([StatusCodeCheck Equals ''200''] @ BodyCheck Matches (Some ''('')
           # [BodyCheck Contains (Some ''tags'')]) ?r
      = evaluateChecks ref_runtime [StatusCodeCheck Equals ''200''] ?r
          @ evaluateCheck ref_runtime (BodyCheck Matches (Some ''('')) ?r
          # evaluateChecks ref_runtime [BodyCheck Contains (Some ''tags'')] ?r"
    by blast
  then have batch: "map passed (evaluateChecks ref_runtime
          [StatusCodeCheck Equals ''200'', BodyCheck Matches (Some ''(''),
           BodyCheck Contains (Some ''tags'')] ?r) = [True, False, True]"
    using failed others by (simp add: evaluateChecks_def)
  from at invalid have lit: "\<not> passed (evaluateCheck ref_runtime (StatusCodeCheck Equals ''abc|x2'') ?r)
      \<and> passed (evaluateCheck ref_runtime (StatusCodeCheck NotEquals ''abc|x2'') ?r)"
    by blast
  from at[where left = "''abc''" and right = "''200''"] others(1)
  have alt: "passed (evaluateCheck ref_runtime (StatusCodeCheck Equals ''abc|200'') ?r)"
    by simp
  let ?h = "\<lparr> statusCode = 200, headers = [], body = ''<html>'', responseTime = 0 \<rparr>"
  have html: "JSON_parse ref_runtime (body ?h) = Inl ''Unexpected token or end of JSON input''"
    by code_simp
  from evaluation_failures_are_contained[where rt = ref_runtime and response = ?h
      and msg = "''Unexpected token or end of JSON input''" and path = "''tags''"
      and operator = Equals and element_opt = None, of "Some ''a''"] html
  have unparsed: "\<not> passed (evaluateCheck ref_runtime
                    (JsonPathCheck ''tags'' Equals (Some ''a'') None) ?h)
      \<and> error (evaluateCheck ref_runtime (JsonPathCheck ''tags'' Equals (Some ''a'') None) ?h)
          = Some ''Unexpected token or end of JSON input''"
    by simp
  from failed jp batch lit alt unparsed show ?thesis by blast
qed

section \<open>JSON-path checks over every element of an array\<close>











section \<open>Body checks and truncation\<close>

lemma startsWith_hd: "startsWith s sub \<Longrightarrow> sub \<noteq> [] \<Longrightarrow> s \<noteq> [] \<and> hd s = hd sub"
  by (cases s; cases sub) auto

lemma str_includes_hd_in_set: "str_includes s sub \<Longrightarrow> sub \<noteq> [] \<Longrightarrow> hd sub \<in> set s"
proof (induction s)
  case Nil
  then show ?case by simp
next
  case (Cons c cs)
  then show ?case using startsWith_hd[of "c # cs" sub] by auto
qed

lemma str_includes_append_left: "str_includes ys sub \<Longrightarrow> str_includes (xs @ ys) sub"
proof (induction xs)
  case Nil
  then show ?case by simp
next
  case (Cons x xs)
  then show ?case by simp
qed

lemma passed_body:
  "passed (evaluateBodyCheck rt operator value response) =
     (case operator of
        Exists \<Rightarrow> body response \<noteq> []
      | NotExists \<Rightarrow> body response = []
      | Equals \<Rightarrow> Some (body response) = value
      | NotEquals \<Rightarrow> Some (body response) \<noteq> value
      | Contains \<Rightarrow> str_includes (body response) (or_empty value)
      | NotContains \<Rightarrow> \<not> str_includes (body response) (or_empty value)
      | Matches \<Rightarrow>
          (case RegExp_new rt (or_empty value) of
             Inl err \<Rightarrow> False | Inr regex \<Rightarrow> regex (body response))
      | NotMatches \<Rightarrow>
          (case RegExp_new rt (or_empty value) of
             Inl err \<Rightarrow> False | Inr regex \<Rightarrow> \<not> regex (body response))
      | _ \<Rightarrow> False)"
  by (cases operator)
     (simp_all add: evaluateBodyCheck_def passed_check_result regex_test_def negate_def
        split: sum.splits)

lemma probe_body_check:
  assumes "checks urlConfig = Some cs" and "i < length cs"
    and "cs ! i = BodyCheck operator value"
  shows \<open>(case checkResults (checkUrl rt config urlConfig (Inr (sc, hs, b)) elapsed) of
          None \<Rightarrow> False
        | Some results \<Rightarrow>
            length results = length cs
            \<and> results ! i
                = evaluateBodyCheck rt operator value
                    \<lparr> statusCode = sc, headers = hs, body = b, responseTime = elapsed \<rparr>
            \<and> passed (results ! i)
                = (case operator of
                  Exists \<Rightarrow> b \<noteq> []
                | NotExists \<Rightarrow> b = []
                | Equals \<Rightarrow> Some b = value
                | NotEquals \<Rightarrow> Some b \<noteq> value
                | Contains \<Rightarrow> str_includes b (or_empty value)
                | NotContains \<Rightarrow> \<not> str_includes b (or_empty value)
                | Matches \<Rightarrow>
                    (case RegExp_new rt (or_empty value) of
                       Inl err \<Rightarrow> False | Inr regex \<Rightarrow> regex b)
                | NotMatches \<Rightarrow>
                    (case RegExp_new rt (or_empty value) of
                       Inl err \<Rightarrow> False | Inr regex \<Rightarrow> \<not> regex b)
                | _ \<Rightarrow> False)
            \<and> actualValue (results ! i)
                = JStr (if length b > 100 then take 100 b @ ''...'' else b))\<close>
proof -
  let ?r = "\<lparr> statusCode = sc, headers = hs, body = b, responseTime = elapsed \<rparr>"
  from assms(1,2) have eff: "effectiveChecks config urlConfig = cs"
    by (auto simp: effectiveChecks_def)
  have results: "checkResults (checkUrl rt config urlConfig (Inr (sc, hs, b)) elapsed)
                   = Some (evaluateChecks rt cs ?r)"
    using checkUrl_on_response[of rt config urlConfig sc hs b elapsed] eff by simp
  have len: "length (evaluateChecks rt cs ?r) = length cs"
    by (simp add: evaluateChecks_def)
  have at: "evaluateChecks rt cs ?r ! i = evaluateBodyCheck rt operator value ?r"
    using assms(2,3) by (simp add: evaluateChecks_def)
  have verdict: "passed (evaluateBodyCheck rt operator value ?r) = (case operator of
                    Exists \<Rightarrow> b \<noteq> []
                  | NotExists \<Rightarrow> b = []
                  | Equals \<Rightarrow> Some b = value
                  | NotEquals \<Rightarrow> Some b \<noteq> value
                  | Contains \<Rightarrow> str_includes b (or_empty value)
                  | NotContains \<Rightarrow> \<not> str_includes b (or_empty value)
                  | Matches \<Rightarrow>
                      (case RegExp_new rt (or_empty value) of
                         Inl err \<Rightarrow> False | Inr regex \<Rightarrow> regex b)
                  | NotMatches \<Rightarrow>
                      (case RegExp_new rt (or_empty value) of
                         Inl err \<Rightarrow> False | Inr regex \<Rightarrow> \<not> regex b)
                  | _ \<Rightarrow> False)"
    by (cases operator)
       (simp_all add: evaluateBodyCheck_def passed_check_result regex_test_def negate_def
          split: sum.splits)
  have shown: "actualValue (evaluateBodyCheck rt operator value ?r)
                = JStr (if length b > 100 then take 100 b @ ''...'' else b)"
    by (simp add: evaluateBodyCheck_def actualValue_check_result)
  show ?thesis
    unfolding results option.case at len using verdict shown by simp
qed

text \<open>
  Claim C9. The verdict of a body check is computed from the whole body of the response.
  The text cut to 100 characters is only the \<open>actualValue\<close> of the result, and the text
  cut to 1024 characters is only the body stored on the probe result. In a probe whose
  check list holds a body check at position \<open>i\<close>, the result at position \<open>i\<close> is the
  result of \<open>evaluateBodyCheck\<close> on the body as the transport returned it, and its verdict
  is the operator applied to that whole body. A \<open>contains\<close> check on a body of 2000
  characters whose needle lies at the end passes, although neither truncated text
  contains the needle.
\<close>

theorem body_verdict_uses_full_body:
  \<open>passed (evaluateBodyCheck rt operator value response) =
     (case operator of
        Exists \<Rightarrow> body response \<noteq> []
      | NotExists \<Rightarrow> body response = []
      | Equals \<Rightarrow> Some (body response) = value
      | NotEquals \<Rightarrow> Some (body response) \<noteq> value
      | Contains \<Rightarrow> str_includes (body response) (or_empty value)
      | NotContains \<Rightarrow> \<not> str_includes (body response) (or_empty value)
      | Matches \<Rightarrow>
          (case RegExp_new rt (or_empty value) of
             Inl err \<Rightarrow> False | Inr regex \<Rightarrow> regex (body response))
      | NotMatches \<Rightarrow>
          (case RegExp_new rt (or_empty value) of
             Inl err \<Rightarrow> False | Inr regex \<Rightarrow> \<not> regex (body response))
      | _ \<Rightarrow> False)
   \<and> actualValue (evaluateBodyCheck rt operator value response)
       = JStr (if length (body response) > 100 then take 100 (body response) @ ''...''
               else body response)
   \<and> checkResults (checkUrl rt config urlConfig (Inr (sc, hs, b)) elapsed)
       = Some (map (\<lambda>check. evaluateCheck rt check
                       \<lparr> statusCode = sc, headers = hs, body = b, responseTime = elapsed \<rparr>)
                 (effectiveChecks config urlConfig))
   \<and> result_body (checkUrl rt config urlConfig (Inr (sc, hs, b)) elapsed)
       = Some (if length b > 1024 then take 1024 b @ ''...'' else b)
   \<and> (checks urlConfig = Some cs \<and> i < length cs \<and> cs ! i = BodyCheck operator value
      \<longrightarrow> (case checkResults (checkUrl rt config urlConfig (Inr (sc, hs, b)) elapsed) of
              None \<Rightarrow> False
            | Some results \<Rightarrow>
                length results = length cs
                \<and> results ! i
                    = evaluateBodyCheck rt operator value
                        \<lparr> statusCode = sc, headers = hs, body = b, responseTime = elapsed \<rparr>
                \<and> passed (results ! i)
                    = (case operator of
                      Exists \<Rightarrow> b \<noteq> []
                    | NotExists \<Rightarrow> b = []
                    | Equals \<Rightarrow> Some b = value
                    | NotEquals \<Rightarrow> Some b \<noteq> value
                    | Contains \<Rightarrow> str_includes b (or_empty value)
                    | NotContains \<Rightarrow> \<not> str_includes b (or_empty value)
                    | Matches \<Rightarrow>
                        (case RegExp_new rt (or_empty value) of
                           Inl err \<Rightarrow> False | Inr regex \<Rightarrow> regex b)
                    | NotMatches \<Rightarrow>
                        (case RegExp_new rt (or_empty value) of
                           Inl err \<Rightarrow> False | Inr regex \<Rightarrow> \<not> regex b)
                    | _ \<Rightarrow> False)
                \<and> actualValue (results ! i)
                    = JStr (if length b > 100 then take 100 b @ ''...'' else b)))\<close>
proof (intro conjI)
  show "actualValue (evaluateBodyCheck rt operator value response)
       = JStr (if length (body response) > 100 then take 100 (body response) @ ''...''
               else body response)"
    by (simp add: evaluateBodyCheck_def actualValue_check_result)
  show "checkResults (checkUrl rt config urlConfig (Inr (sc, hs, b)) elapsed)
       = Some (map (\<lambda>check. evaluateCheck rt check
                       \<lparr> statusCode = sc, headers = hs, body = b, responseTime = elapsed \<rparr>)
                 (effectiveChecks config urlConfig))"
    using checkUrl_on_response[of rt config urlConfig sc hs b elapsed]
    by (simp add: evaluateChecks_def)
  show "result_body (checkUrl rt config urlConfig (Inr (sc, hs, b)) elapsed)
       = Some (if length b > 1024 then take 1024 b @ ''...'' else b)"
    using checkUrl_on_response[of rt config urlConfig sc hs b elapsed] by simp
  show \<open>checks urlConfig = Some cs \<and> i < length cs \<and> cs ! i = BodyCheck operator value
      \<longrightarrow> (case checkResults (checkUrl rt config urlConfig (Inr (sc, hs, b)) elapsed) of
              None \<Rightarrow> False
            | Some results \<Rightarrow>
                length results = length cs
                \<and> results ! i
                    = evaluateBodyCheck rt operator value
                        \<lparr> statusCode = sc, headers = hs, body = b, responseTime = elapsed \<rparr>
                \<and> passed (results ! i)
                    = (case operator of
                      Exists \<Rightarrow> b \<noteq> []
                    | NotExists \<Rightarrow> b = []
                    | Equals \<Rightarrow> Some b = value
                    | NotEquals \<Rightarrow> Some b \<noteq> value
                    | Contains \<Rightarrow> str_includes b (or_empty value)
                    | NotContains \<Rightarrow> \<not> str_includes b (or_empty value)
                    | Matches \<Rightarrow>
                        (case RegExp_new rt (or_empty value) of
                           Inl err \<Rightarrow> False | Inr regex \<Rightarrow> regex b)
                    | NotMatches \<Rightarrow>
                        (case RegExp_new rt (or_empty value) of
                           Inl err \<Rightarrow> False | Inr regex \<Rightarrow> \<not> regex b)
                    | _ \<Rightarrow> False)
                \<and> actualValue (results ! i)
                    = JStr (if length b > 100 then take 100 b @ ''...'' else b))\<close>
    using probe_body_check[where rt = rt and config = config and urlConfig = urlConfig
        and cs = cs and i = i and operator = operator and sc = sc and hs = hs and b = b
        and elapsed = elapsed, of "value"]
    by blast
qed (rule passed_body)

theorem body_verdict_uses_full_body_witness:
  "length (replicate 1990 CHR ''a'' @ ''the needle'') = 2000
   \<and> passed (evaluateBodyCheck ref_runtime Contains (Some ''needle'')
        \<lparr> statusCode = 200, headers = [],
          body = replicate 1990 CHR ''a'' @ ''the needle'', responseTime = 0 \<rparr>)
   \<and> actualValue (evaluateBodyCheck ref_runtime Contains (Some ''needle'')
        \<lparr> statusCode = 200, headers = [],
          body = replicate 1990 CHR ''a'' @ ''the needle'', responseTime = 0 \<rparr>)
       = JStr (replicate 100 CHR ''a'' @ ''...'')
   \<and> \<not> str_includes (replicate 100 CHR ''a'' @ ''...'') ''needle''
   \<and> result_body (checkUrl ref_runtime \<lparr> globalSuccessCodes = None \<rparr>
        \<lparr> url = ''http://example.com/'', name = None, successCodes = None,
          checks = Some [BodyCheck Contains (Some ''needle'')] \<rparr>
        (Inr (200, [], replicate 1990 CHR ''a'' @ ''the needle'')) 0)
       = Some (replicate 1024 CHR ''a'' @ ''...'')
   \<and> \<not> str_includes (replicate 1024 CHR ''a'' @ ''...'') ''needle''
   \<and> success (checkUrl ref_runtime \<lparr> globalSuccessCodes = None \<rparr>
        \<lparr> url = ''http://example.com/'', name = None, successCodes = None,
          checks = Some [BodyCheck Contains (Some ''needle'')] \<rparr>
        (Inr (200, [], replicate 1990 CHR ''a'' @ ''the needle'')) 0)
   \<and> (case checkResults (checkUrl ref_runtime \<lparr> globalSuccessCodes = None \<rparr>
              \<lparr> url = ''http://example.com/'', name = None, successCodes = None,
                checks = Some [BodyCheck Contains (Some ''needle'')] \<rparr>
              (Inr (200, [], replicate 1990 CHR ''a'' @ ''the needle'')) 0) of
         None \<Rightarrow> False
       | Some results \<Rightarrow>
           map passed results = [True]
           \<and> map actualValue results = [JStr (replicate 100 CHR ''a'' @ ''...'')])"
proof -
  let ?b = "replicate 1990 CHR ''a'' @ ''the needle''"
  let ?r = "\<lparr> statusCode = 200, headers = [], body = ?b, responseTime = 0 \<rparr>"
  let ?u = "\<lparr> url = ''http://example.com/'', name = None, successCodes = None,
          checks = Some [BodyCheck Contains (Some ''needle'')] \<rparr>"
  let ?c = "\<lparr> globalSuccessCodes = None \<rparr>"
  note inst = body_verdict_uses_full_body[where rt = ref_runtime and operator = Contains
      and response = ?r and config = ?c and urlConfig = ?u and sc = 200 and hs = "[]"
      and b = ?b and elapsed = 0 and cs = "[BodyCheck Contains (Some ''needle'')]" and i = 0,
      of "Some ''needle''"]
  have len: "length ?b = 2000" by simp
  have inc: "str_includes ?b ''needle''"
    by (rule str_includes_append_left) simp
  have no100: "\<not> str_includes (replicate 100 CHR ''a'' @ ''...'') ''needle''"
    using str_includes_hd_in_set[of "replicate 100 CHR ''a'' @ ''...''" "''needle''"] by auto
  have no1024: "\<not> str_includes (replicate 1024 CHR ''a'' @ ''...'') ''needle''"
    using str_includes_hd_in_set[of "replicate 1024 CHR ''a'' @ ''...''" "''needle''"] by auto
  from inst inc have p: "passed (evaluateBodyCheck ref_runtime Contains (Some ''needle'') ?r)"
    by (simp add: or_empty_def)
  from inst have a: "actualValue (evaluateBodyCheck ref_runtime Contains (Some ''needle'') ?r)
       = JStr (replicate 100 CHR ''a'' @ ''...'')"
    by simp
  from inst have rb: "result_body (checkUrl ref_runtime ?c ?u (Inr (200, [], ?b)) 0)
       = Some (replicate 1024 CHR ''a'' @ ''...'')"
    by simp
  have supplied: "checks ?u = Some [BodyCheck Contains (Some ''needle'')]
      \<and> (0::nat) < length [BodyCheck Contains (Some ''needle'')]
      \<and> [BodyCheck Contains (Some ''needle'')] ! 0 = BodyCheck Contains (Some ''needle'')"
    by simp
  from inst supplied
  have probe: "case checkResults (checkUrl ref_runtime ?c ?u (Inr (200, [], ?b)) 0) of
         None \<Rightarrow> False
       | Some results \<Rightarrow>
           length results = length [BodyCheck Contains (Some ''needle'')]
           \<and> results ! 0 = evaluateBodyCheck ref_runtime Contains (Some ''needle'') ?r"
    by (auto split: option.splits)
  then obtain results
    where results: "checkResults (checkUrl ref_runtime ?c ?u (Inr (200, [], ?b)) 0) = Some results"
      and one: "length results = 1"
      and first: "results ! 0 = evaluateBodyCheck ref_runtime Contains (Some ''needle'') ?r"
    by (auto split: option.splits)
  from one first have "results = [evaluateBodyCheck ref_runtime Contains (Some ''needle'') ?r]"
    by (cases results) auto
  with p a have shown: "map passed results = [True]
      \<and> map actualValue results = [JStr (replicate 100 CHR ''a'' @ ''...'')]"
    by simp
  have s: "success (checkUrl ref_runtime ?c ?u (Inr (200, [], ?b)) 0)"
    using p checkUrl_on_response[of ref_runtime ?c ?u 200 "[]" ?b 0]
    by (simp add: effectiveChecks_def evaluateChecks_def)
  from len p a no100 rb no1024 s results shown show ?thesis by simp
qed

end
